theory Spec2Isabelle
  imports Complex_Main "HOL-Library.Word"
begin

section \<open>The receipt processor: data model\<close>

text \<open>
  The Go program keeps every field of a receipt as a string. A Go string is a sequence
  of bytes, so it is modelled by \<^typ>\<open>string\<close>, whose characters are the 256 byte
  values; \<open>len(s)\<close> is \<^term>\<open>length s\<close>.
\<close>

record Item =
  ShortDescription :: string
  Price :: string

record Receipt =
  Retailer :: string
  PurchaseDate :: string
  PurchaseTime :: string
  Total :: string
  Items :: "Item list"

text \<open>
  Go's \<open>int\<close> is taken to be 64 bits wide (as on amd64 and arm64): addition wraps
  around and \<^term>\<open>sint\<close> reads the signed value.
\<close>

type_synonym go_int = "64 word"

record ProcessedReceipt =
  ID :: string
  Points :: go_int

section \<open>float64\<close>

text \<open>
  A \<open>float64\<close> is a finite binary64 number, an infinity or a NaN. Finite numbers are
  kept by their exact rational value. The sign of zero is not kept: the program only
  compares floats with \<open>==\<close>, takes \<open>math.Trunc\<close>, \<open>math.Mod\<close> and
  \<open>math.Ceil\<close> of them, multiplies and converts to \<open>int\<close>, and none of these
  tells \<open>-0\<close> from \<open>0\<close> in what the program observes.
\<close>

datatype f64 = Finite rat | PInf | NInf | NaN

text \<open>Number of binary digits of a natural number.\<close>

fun bit_length :: "nat \<Rightarrow> nat" where
  "bit_length n = (if n = 0 then 0 else Suc (bit_length (n div 2)))"

declare bit_length.simps [simp del]

text \<open>\<open>floor_log2 a\<close> is the integer \<open>e\<close> with \<open>2^e \<le> a < 2^(e+1)\<close>, for \<open>a > 0\<close>.\<close>

definition floor_log2 :: "rat \<Rightarrow> int" where
  "floor_log2 a =
     (if 1 \<le> a then int (bit_length (nat \<lfloor>a\<rfloor>)) - 1
      else - int (bit_length (nat (\<lceil>1 / a\<rceil> - 1))))"

text \<open>Rounding to the nearest integer, ties to the even one (IEEE 754 roundTiesToEven).\<close>

definition round_half_even :: "rat \<Rightarrow> int" where
  "round_half_even x =
     (let f = \<lfloor>x\<rfloor>; d = x - of_int f
      in if d < 1 / 2 then f
         else if 1 / 2 < d then f + 1
         else if even f then f else f + 1)"

text \<open>
  \<open>round_f64 q\<close> is the binary64 number nearest to the rational \<open>q\<close>: 53 significant
  bits, the unit in the last place never below \<open>2^-1074\<close> (subnormal numbers), and an
  infinity when the rounded magnitude reaches \<open>2^1024\<close>.
\<close>

definition round_f64 :: "rat \<Rightarrow> f64" where
  "round_f64 q =
     (if q = 0 then Finite 0
      else
        let a = \<bar>q\<bar>;
            e = max (floor_log2 a - 52) (- 1074);
            m = round_half_even (a / (2 powi e));
            v = of_int m * (2 powi e)
        in if 2 ^ 1024 \<le> v then (if q < 0 then NInf else PInf)
           else Finite (if q < 0 then - v else v))"

text \<open>\<open>a * b\<close> on \<open>float64\<close>: the exact product, rounded once.\<close>

fun f64_mul :: "f64 \<Rightarrow> f64 \<Rightarrow> f64" where
  "f64_mul NaN _ = NaN"
| "f64_mul _ NaN = NaN"
| "f64_mul (Finite x) (Finite y) = round_f64 (x * y)"
| "f64_mul (Finite x) PInf = (if x = 0 then NaN else if 0 < x then PInf else NInf)"
| "f64_mul (Finite x) NInf = (if x = 0 then NaN else if 0 < x then NInf else PInf)"
| "f64_mul PInf (Finite y) = (if y = 0 then NaN else if 0 < y then PInf else NInf)"
| "f64_mul NInf (Finite y) = (if y = 0 then NaN else if 0 < y then NInf else PInf)"
| "f64_mul PInf PInf = PInf"
| "f64_mul PInf NInf = NInf"
| "f64_mul NInf PInf = NInf"
| "f64_mul NInf NInf = PInf"

text \<open>\<open>a == b\<close> on \<open>float64\<close>: a NaN equals nothing.\<close>

definition f64_eq :: "f64 \<Rightarrow> f64 \<Rightarrow> bool" where
  "f64_eq a b = (a \<noteq> NaN \<and> b \<noteq> NaN \<and> a = b)"

text \<open>Truncation of a rational towards zero.\<close>

definition trunc_rat :: "rat \<Rightarrow> int" where
  "trunc_rat x = (if 0 \<le> x then \<lfloor>x\<rfloor> else \<lceil>x\<rceil>)"

fun math_Trunc :: "f64 \<Rightarrow> f64" where
  "math_Trunc (Finite x) = Finite (of_int (trunc_rat x))"
| "math_Trunc f = f"

fun math_Ceil :: "f64 \<Rightarrow> f64" where
  "math_Ceil (Finite x) = Finite (of_int \<lceil>x\<rceil>)"
| "math_Ceil f = f"

text \<open>
  \<open>math.Mod(x, y)\<close>: the remainder of \<open>x / y\<close> with the sign of \<open>x\<close> and a magnitude
  below that of \<open>y\<close>; it is exact. The special cases are those \<open>math.Mod\<close> documents.
\<close>

fun math_Mod :: "f64 \<Rightarrow> f64 \<Rightarrow> f64" where
  "math_Mod NaN _ = NaN"
| "math_Mod _ NaN = NaN"
| "math_Mod PInf _ = NaN"
| "math_Mod NInf _ = NaN"
| "math_Mod (Finite x) PInf = Finite x"
| "math_Mod (Finite x) NInf = Finite x"
| "math_Mod (Finite x) (Finite y) =
     (if y = 0 then NaN else Finite (x - y * of_int (trunc_rat (x / y))))"

text \<open>
  \<open>int(f)\<close>: the fraction is dropped. When the value does not fit the result type (a
  NaN, an infinity, a magnitude beyond 64 bits), Go leaves the result to the
  implementation; \<open>oor\<close> is that choice of the platform.
\<close>

fun float_to_int :: "(f64 \<Rightarrow> go_int) \<Rightarrow> f64 \<Rightarrow> go_int" where
  "float_to_int oor (Finite x) =
     (if - (2 ^ 63) \<le> trunc_rat x \<and> trunc_rat x < 2 ^ 63 then word_of_int (trunc_rat x)
      else oor (Finite x))"
| "float_to_int oor f = oor f"

section \<open>UTF-8 and the Unicode classes\<close>

text \<open>
  \<open>utf8.DecodeRuneInString\<close>: the first code point of a byte string and the number of
  bytes it takes. A byte sequence that is not the shortest encoding of a code point
  (or encodes a surrogate, or a value beyond \<open>U+10FFFF\<close>) gives \<open>RuneError\<close> and
  width 1; the empty string gives width 0.
\<close>

definition RuneError :: nat where
  "RuneError = 0xFFFD"

definition byte :: "string \<Rightarrow> nat \<Rightarrow> nat" where
  "byte s i = of_char (s ! i)"

definition accept_lo :: "nat \<Rightarrow> nat" where
  "accept_lo s0 = (if s0 = 0xE0 then 0xA0 else if s0 = 0xF0 then 0x90 else 0x80)"

definition accept_hi :: "nat \<Rightarrow> nat" where
  "accept_hi s0 = (if s0 = 0xED then 0x9F else if s0 = 0xF4 then 0x8F else 0xBF)"

definition DecodeRuneInString :: "string \<Rightarrow> nat \<times> nat" where
  "DecodeRuneInString s =
     (if s = [] then (RuneError, 0)
      else
        let s0 = byte s 0 in
        if s0 < 0x80 then (s0, 1)
        else if s0 < 0xC2 \<or> 0xF4 < s0 then (RuneError, 1)
        else
          let sz = (if s0 < 0xE0 then 2 else if s0 < 0xF0 then 3 else (4::nat)) in
          if length s < sz then (RuneError, 1)
          else
            let s1 = byte s 1 in
            if s1 < accept_lo s0 \<or> accept_hi s0 < s1 then (RuneError, 1)
            else if sz \<le> 2 then ((s0 mod 32) * 64 + s1 mod 64, 2)
            else
              let s2 = byte s 2 in
              if s2 < 0x80 \<or> 0xBF < s2 then (RuneError, 1)
              else if sz \<le> 3 then ((s0 mod 16) * 4096 + (s1 mod 64) * 64 + s2 mod 64, 3)
              else
                let s3 = byte s 3 in
                if s3 < 0x80 \<or> 0xBF < s3 then (RuneError, 1)
                else ((s0 mod 8) * 262144 + (s1 mod 64) * 4096 + (s2 mod 64) * 64
                        + s3 mod 64, 4))"

text \<open>
  \<open>utf8.DecodeLastRuneInString\<close>: the last code point of a byte string. It looks back
  over at most four bytes for a byte that can start an encoding and decodes from there;
  if that encoding does not end where the string ends, the last byte alone is a
  \<open>RuneError\<close> of width 1.
\<close>

definition RuneStart :: "nat \<Rightarrow> bool" where
  "RuneStart b = (b div 64 \<noteq> 2)"

fun find_start :: "string \<Rightarrow> nat \<Rightarrow> nat \<Rightarrow> nat" where
  "find_start s lo 0 = 0"
| "find_start s lo (Suc start) =
     (if Suc start < lo then Suc start
      else if RuneStart (byte s (Suc start)) then Suc start
      else find_start s lo start)"

definition DecodeLastRuneInString :: "string \<Rightarrow> nat \<times> nat" where
  "DecodeLastRuneInString s =
     (let n = length s in
      if n = 0 then (RuneError, 0)
      else if byte s (n - 1) < 0x80 then (byte s (n - 1), 1)
      else
        let lo = n - 4;
            start = (if n < 2 then 0 else find_start s lo (n - 2));
            (r, size) = DecodeRuneInString (drop start s)
        in if start + size \<noteq> n then (RuneError, 1) else (r, size))"

text \<open>\<open>for _, char := range s\<close>: the code points of a string, in order.\<close>

function runes :: "string \<Rightarrow> nat list" where
  "runes s =
     (if s = [] then []
      else fst (DecodeRuneInString s) # runes (drop (snd (DecodeRuneInString s)) s))"
  by pat_completeness auto

lemma DecodeRuneInString_size_pos: "s \<noteq> [] \<Longrightarrow> 0 < snd (DecodeRuneInString s)"
  unfolding DecodeRuneInString_def Let_def
  by (simp only: if_distrib [of snd] snd_conv if_False) simp

termination runes
  by (relation "measure length") (auto simp: DecodeRuneInString_size_pos)

declare runes.simps [simp del]

text \<open>
  \<open>unicode.IsSpace\<close>: the Unicode White_Space property, which Go lists in full.
\<close>

definition IsSpace :: "nat \<Rightarrow> bool" where
  "IsSpace r =
     ((9 \<le> r \<and> r \<le> 13) \<or> r = 0x20 \<or> r = 0x85 \<or> r = 0xA0 \<or> r = 0x1680
      \<or> (0x2000 \<le> r \<and> r \<le> 0x200A) \<or> r = 0x2028 \<or> r = 0x2029 \<or> r = 0x202F
      \<or> r = 0x205F \<or> r = 0x3000)"

text \<open>
  \<open>unicode.IsLetter\<close> and \<open>unicode.IsDigit\<close> read the tables of the Unicode
  standard, which are not part of the repository. For ASCII the classes are written
  out; beyond ASCII they are the tables \<open>letter_table\<close> and \<open>digit_table\<close> of the
  platform, together with its choice for out-of-range float conversions.
\<close>

record platform =
  float_conv :: "f64 \<Rightarrow> go_int"
  letter_table :: "nat \<Rightarrow> bool"
  digit_table :: "nat \<Rightarrow> bool"

definition IsLetter :: "platform \<Rightarrow> nat \<Rightarrow> bool" where
  "IsLetter pf r =
     (if r < 0x80 then (0x41 \<le> r \<and> r \<le> 0x5A) \<or> (0x61 \<le> r \<and> r \<le> 0x7A)
      else letter_table pf r)"

definition IsDigit :: "platform \<Rightarrow> nat \<Rightarrow> bool" where
  "IsDigit pf r = (if r < 0x80 then 0x30 \<le> r \<and> r \<le> 0x39 else digit_table pf r)"

section \<open>strings.TrimSpace\<close>

text \<open>
  \<open>strings.TrimSpace(s)\<close> is \<open>TrimFunc(s, unicode.IsSpace)\<close>: leading code points
  are decoded forwards and dropped while they are white space, then trailing code points
  are decoded backwards and dropped while they are white space.
\<close>

function TrimLeftSpace :: "string \<Rightarrow> string" where
  "TrimLeftSpace s =
     (if s = [] then []
      else if IsSpace (fst (DecodeRuneInString s))
        then TrimLeftSpace (drop (snd (DecodeRuneInString s)) s)
      else s)"
  by pat_completeness auto

termination TrimLeftSpace
  by (relation "measure length") (auto simp: DecodeRuneInString_size_pos)

declare TrimLeftSpace.simps [simp del]

function TrimRightSpace :: "string \<Rightarrow> string" where
  "TrimRightSpace s =
     (if s = [] then []
      else if IsSpace (fst (DecodeLastRuneInString s))
        then TrimRightSpace (take (length s - max 1 (snd (DecodeLastRuneInString s))) s)
      else s)"
  by pat_completeness auto

termination TrimRightSpace
  by (relation "measure length") auto

declare TrimRightSpace.simps [simp del]

definition TrimSpace :: "string \<Rightarrow> string" where
  "TrimSpace s = TrimRightSpace (TrimLeftSpace s)"

section \<open>strconv.ParseFloat\<close>

text \<open>
  \<open>strconv.ParseFloat(s, 64)\<close> accepts the special values \<open>inf\<close>, \<open>infinity\<close> (with
  an optional sign) and \<open>nan\<close> in any letter case, and decimal or hexadecimal
  floating-point literals; it returns the nearest \<open>float64\<close>, and an error for a
  string it cannot read to its end or a value that rounds to an infinity. The program
  only asks whether the error is nil, so the model returns \<open>None\<close> for every error.
\<close>

definition is_dec_digit :: "char \<Rightarrow> bool" where
  "is_dec_digit c = (0x30 \<le> (of_char c :: nat) \<and> (of_char c :: nat) \<le> 0x39)"

definition is_hex_letter :: "char \<Rightarrow> bool" where
  "is_hex_letter c =
     ((0x41 \<le> (of_char c :: nat) \<and> (of_char c :: nat) \<le> 0x46)
      \<or> (0x61 \<le> (of_char c :: nat) \<and> (of_char c :: nat) \<le> 0x66))"

definition digit_val :: "char \<Rightarrow> nat" where
  "digit_val c = of_char c - 0x30"

definition hex_letter_val :: "char \<Rightarrow> nat" where
  "hex_letter_val c = (if of_char c < (0x61::nat) then of_char c - 0x37 else of_char c - 0x57)"

text \<open>
  \<open>lower(c)\<close> of package strconv sets bit \<open>0x20\<close> of the byte; the result is given as
  the value of the byte (\<open>0x65\<close> is \<open>e\<close>, \<open>0x70\<close> is \<open>p\<close>, \<open>0x78\<close> is \<open>x\<close>).
\<close>

definition lower :: "char \<Rightarrow> nat" where
  "lower c = (if (of_char c div 32) mod 2 = (0::nat) then of_char c + 32 else of_char c)"

text \<open>
  \<open>commonPrefixLenIgnoreCase(s, prefix)\<close>, for a lower-case \<open>prefix\<close>: upper-case
  ASCII letters of \<open>s\<close> are compared as their lower-case ones.
\<close>

definition ascii_lower :: "char \<Rightarrow> nat" where
  "ascii_lower c =
     (if 0x41 \<le> (of_char c :: nat) \<and> (of_char c :: nat) \<le> 0x5A then of_char c + 32
      else of_char c)"

fun commonPrefixLenIgnoreCase :: "string \<Rightarrow> string \<Rightarrow> nat" where
  "commonPrefixLenIgnoreCase (c # s) (p # ps) =
     (if ascii_lower c = of_char p then Suc (commonPrefixLenIgnoreCase s ps) else 0)"
| "commonPrefixLenIgnoreCase _ _ = 0"

definition special_inf :: "f64 \<Rightarrow> nat \<Rightarrow> string \<Rightarrow> (f64 \<times> nat) option" where
  "special_inf v nsign s =
     (let n = commonPrefixLenIgnoreCase s ''infinity'';
          n = (if 3 < n \<and> n < 8 then 3 else n)
      in if n = 3 \<or> n = 8 then Some (v, nsign + n) else None)"

text \<open>\<open>special\<close> returns the value and the number of bytes read.\<close>

definition special :: "string \<Rightarrow> (f64 \<times> nat) option" where
  "special s =
     (case s of
        [] \<Rightarrow> None
      | c # rest \<Rightarrow>
          if c = CHR ''+'' then special_inf PInf 1 rest
          else if c = CHR ''-'' then special_inf NInf 1 rest
          else if c = CHR ''i'' \<or> c = CHR ''I'' then special_inf PInf 0 s
          else if c = CHR ''n'' \<or> c = CHR ''N''
            then (if commonPrefixLenIgnoreCase s ''nan'' = 3 then Some (NaN, 3) else None)
          else None)"

text \<open>
  The mantissa loop of \<open>readFloat\<close>. Go keeps the first 19 digits in a \<open>uint64\<close> and
  the position of the point, and the slow path reads the digits again into a decimal
  of 800 digits; what both stand for is the number written, which the model keeps
  exactly: \<open>mant\<close> is the integer all digits spell and \<open>fracdigits\<close> the number of
  digits after the point.
\<close>

record scan =
  sawdot :: bool
  sawdigits :: bool
  underscores :: bool
  mant :: nat
  fracdigits :: nat

fun mantissa_loop :: "nat \<Rightarrow> string \<Rightarrow> scan \<Rightarrow> scan \<times> string" where
  "mantissa_loop base [] st = (st, [])"
| "mantissa_loop base (c # s) st =
     (if c = CHR ''_'' then mantissa_loop base s (st\<lparr>underscores := True\<rparr>)
      else if c = CHR ''.'' then
        (if sawdot st then (st, c # s) else mantissa_loop base s (st\<lparr>sawdot := True\<rparr>))
      else if is_dec_digit c then
        mantissa_loop base s
          (st\<lparr>sawdigits := True, mant := mant st * base + digit_val c,
              fracdigits := (if sawdot st then Suc (fracdigits st) else fracdigits st)\<rparr>)
      else if base = 16 \<and> is_hex_letter c then
        mantissa_loop base s
          (st\<lparr>sawdigits := True, mant := mant st * 16 + hex_letter_val c,
              fracdigits := (if sawdot st then Suc (fracdigits st) else fracdigits st)\<rparr>)
      else (st, c # s))"

text \<open>
  The digits of the exponent; underscores are skipped and noted, and the exponent stops
  growing once it has reached 10000.
\<close>

fun exponent_loop :: "string \<Rightarrow> nat \<Rightarrow> bool \<Rightarrow> nat \<times> bool \<times> string" where
  "exponent_loop [] e us = (e, us, [])"
| "exponent_loop (c # s) e us =
     (if c = CHR ''_'' then exponent_loop s e True
      else if is_dec_digit c
        then exponent_loop s (if e < 10000 then e * 10 + digit_val c else e) us
      else (e, us, c # s))"

text \<open>
  The optional exponent: \<open>e\<close> (decimal) or \<open>p\<close> (hexadecimal, where it is required),
  a sign and at least one digit. The result is the signed exponent, the underscore
  flag and the rest of the string.
\<close>

definition read_exponent :: "bool \<Rightarrow> string \<Rightarrow> bool \<Rightarrow> (int \<times> bool \<times> string) option" where
  "read_exponent hex s us =
     (if s \<noteq> [] \<and> lower (hd s) = (if hex then 0x70 else 0x65) then
        (let s1 = tl s in
         if s1 = [] then None
         else
           let esign = (if hd s1 = CHR ''-'' then - 1 else (1::int));
               s2 = (if hd s1 = CHR ''+'' \<or> hd s1 = CHR ''-'' then tl s1 else s1)
           in if s2 = [] \<or> \<not> is_dec_digit (hd s2) then None
              else
                let (e, us', rest) = exponent_loop s2 0 us
                in Some (int e * esign, us', rest))
      else if hex then None
      else Some (0, us, s))"

text \<open>\<open>underscoreOK\<close>: an underscore must stand between digits, or after a base prefix.\<close>

fun underscore_scan :: "bool \<Rightarrow> char \<Rightarrow> string \<Rightarrow> bool" where
  "underscore_scan hex saw [] = (saw \<noteq> CHR ''_'')"
| "underscore_scan hex saw (c # s) =
     (if is_dec_digit c \<or> (hex \<and> is_hex_letter c) then underscore_scan hex (CHR ''0'') s
      else if c = CHR ''_'' then
        (if saw \<noteq> CHR ''0'' then False else underscore_scan hex (CHR ''_'') s)
      else if saw = CHR ''_'' then False
      else underscore_scan hex (CHR ''!'') s)"

definition underscoreOK :: "string \<Rightarrow> bool" where
  "underscoreOK s0 =
     (let s = (if s0 \<noteq> [] \<and> (hd s0 = CHR ''-'' \<or> hd s0 = CHR ''+'') then tl s0 else s0);
          pre = (2 \<le> length s \<and> s ! 0 = CHR ''0''
                 \<and> (lower (s ! 1) = 0x62 \<or> lower (s ! 1) = 0x6F \<or> lower (s ! 1) = 0x78));
          hex = (pre \<and> lower (s ! 1) = 0x78)
      in underscore_scan hex (if pre then CHR ''0'' else CHR ''^'') (if pre then drop 2 s else s))"

text \<open>\<open>underscores && !underscoreOK(s[:i])\<close>: the check is made only when an underscore was seen.\<close>

fun bad_underscores :: "bool \<Rightarrow> string \<Rightarrow> bool" where
  "bad_underscores False s = False"
| "bad_underscores True s = (\<not> underscoreOK s)"

text \<open>
  \<open>readFloat\<close>: the sign, whether the literal is hexadecimal, the magnitude written
  (exactly) and the rest of the string; \<open>None\<close> when the string does not start with a
  literal.
\<close>

fun read_rest ::
  "string \<Rightarrow> bool \<Rightarrow> bool \<Rightarrow> scan \<Rightarrow> (int \<times> bool \<times> string) option
     \<Rightarrow> (bool \<times> bool \<times> rat \<times> string) option" where
  "read_rest s0 neg hex st None = None"
| "read_rest s0 neg hex st (Some (e, us, s4)) =
     (if bad_underscores us (take (length s0 - length s4) s0) then None
      else
        Some (neg, hex,
              (if hex then of_nat (mant st) * (2 powi (e - 4 * int (fracdigits st)))
               else of_nat (mant st) * (10 powi (e - int (fracdigits st)))),
              s4))"

fun read_mantissa ::
  "string \<Rightarrow> bool \<Rightarrow> bool \<Rightarrow> scan \<times> string \<Rightarrow> (bool \<times> bool \<times> rat \<times> string) option" where
  "read_mantissa s0 neg hex (st, s3) =
     (if \<not> sawdigits st then None
      else read_rest s0 neg hex st (read_exponent hex s3 (underscores st)))"

definition readFloat :: "string \<Rightarrow> (bool \<times> bool \<times> rat \<times> string) option" where
  "readFloat s0 =
     (if s0 = [] then None
      else
        let neg = (hd s0 = CHR ''-'');
            s1 = (if hd s0 = CHR ''+'' \<or> hd s0 = CHR ''-'' then tl s0 else s0);
            hex = (2 < length s1 \<and> s1 ! 0 = CHR ''0'' \<and> lower (s1 ! 1) = 0x78)
        in read_mantissa s0 neg hex
             (mantissa_loop (if hex then 16 else 10) (if hex then drop 2 s1 else s1)
                \<lparr>sawdot = False, sawdigits = False, underscores = False,
                 mant = 0, fracdigits = 0\<rparr>))"

text \<open>
  \<open>atof64\<close> after \<open>readFloat\<close>: the whole string must have been read, and the value
  written is rounded to the nearest \<open>float64\<close>; a value that rounds to an infinity is a
  range error.
\<close>

fun round_parsed :: "bool \<Rightarrow> f64 \<Rightarrow> f64 option" where
  "round_parsed neg (Finite x) = Some (Finite (if neg then - x else x))"
| "round_parsed neg f = None"

fun parse_number :: "(bool \<times> bool \<times> rat \<times> string) option \<Rightarrow> f64 option" where
  "parse_number None = None"
| "parse_number (Some (neg, hex, q, rest)) =
     (if rest \<noteq> [] then None else round_parsed neg (round_f64 q))"

fun parse_special :: "string \<Rightarrow> (f64 \<times> nat) option \<Rightarrow> f64 option" where
  "parse_special s (Some (f, n)) = (if n = length s then Some f else None)"
| "parse_special s None = parse_number (readFloat s)"

definition ParseFloat :: "string \<Rightarrow> f64 option" where
  "ParseFloat s = parse_special s (special s)"

section \<open>time.Parse\<close>

text \<open>
  \<open>time.Parse\<close> with the layouts \<open>"2006-01-02"\<close> and \<open>"15:04"\<close>. \<open>getnum(s, fixed)\<close>
  reads one or two decimal digits; with \<open>fixed\<close> it insists on two.
\<close>

definition isDigit :: "string \<Rightarrow> nat \<Rightarrow> bool" where
  "isDigit s i = (i < length s \<and> is_dec_digit (s ! i))"

definition getnum :: "string \<Rightarrow> bool \<Rightarrow> (nat \<times> string) option" where
  "getnum s fixed =
     (if \<not> isDigit s 0 then None
      else if \<not> isDigit s 1 then
        (if fixed then None else Some (digit_val (s ! 0), drop 1 s))
      else Some (digit_val (s ! 0) * 10 + digit_val (s ! 1), drop 2 s))"

text \<open>A literal character of the layout must be the next character of the value.\<close>

fun skip_char :: "char \<Rightarrow> string \<Rightarrow> string option" where
  "skip_char c [] = None"
| "skip_char c (x # s) = (if x = c then Some s else None)"

definition isLeap :: "nat \<Rightarrow> bool" where
  "isLeap year = (year mod 4 = 0 \<and> (year mod 100 \<noteq> 0 \<or> year mod 400 = 0))"

definition daysIn :: "nat \<Rightarrow> nat \<Rightarrow> nat" where
  "daysIn m year =
     (if m = 2 then (if isLeap year then 29 else 28) else 30 + (m + m div 8) mod 2)"

text \<open>
  The date layout: a year of exactly four digits, \<open>-\<close>, a month of two digits in
  \<open>1..12\<close>, \<open>-\<close>, a day of two digits, and nothing after it; the day must exist in
  that month of that year. The result is (year, month, day).
\<close>

fun parse_day :: "nat \<Rightarrow> nat \<Rightarrow> (nat \<times> string) option \<Rightarrow> (nat \<times> nat \<times> nat) option" where
  "parse_day year month None = None"
| "parse_day year month (Some (day, rest)) =
     (if rest \<noteq> [] then None
      else if day < 1 \<or> daysIn month year < day then None
      else Some (year, month, day))"

fun parse_day_sep :: "nat \<Rightarrow> nat \<Rightarrow> string option \<Rightarrow> (nat \<times> nat \<times> nat) option" where
  "parse_day_sep year month None = None"
| "parse_day_sep year month (Some s) = parse_day year month (getnum s True)"

fun parse_month :: "nat \<Rightarrow> (nat \<times> string) option \<Rightarrow> (nat \<times> nat \<times> nat) option" where
  "parse_month year None = None"
| "parse_month year (Some (month, rest)) =
     (if month \<le> 0 \<or> 12 < month then None
      else parse_day_sep year month (skip_char (CHR ''-'') rest))"

fun parse_month_sep :: "nat \<Rightarrow> string option \<Rightarrow> (nat \<times> nat \<times> nat) option" where
  "parse_month_sep year None = None"
| "parse_month_sep year (Some s) = parse_month year (getnum s True)"

definition Parse_date :: "string \<Rightarrow> (nat \<times> nat \<times> nat) option" where
  "Parse_date s =
     (if length s < 4 \<or> \<not> isDigit s 0 then None
      else if \<not> (isDigit s 1 \<and> isDigit s 2 \<and> isDigit s 3) then None
      else
        parse_month_sep
          (digit_val (s ! 0) * 1000 + digit_val (s ! 1) * 100 + digit_val (s ! 2) * 10
             + digit_val (s ! 3))
          (skip_char (CHR ''-'') (drop 4 s)))"

text \<open>
  The clock layout: an hour of one or two digits below 24, \<open>:\<close>, a minute of two digits
  below 60, and nothing after it. The result is (hour, minute).
\<close>

fun parse_minute :: "nat \<Rightarrow> (nat \<times> string) option \<Rightarrow> (nat \<times> nat) option" where
  "parse_minute hour None = None"
| "parse_minute hour (Some (minute, rest)) =
     (if 60 \<le> minute then None else if rest \<noteq> [] then None else Some (hour, minute))"

fun parse_minute_sep :: "nat \<Rightarrow> string option \<Rightarrow> (nat \<times> nat) option" where
  "parse_minute_sep hour None = None"
| "parse_minute_sep hour (Some s) = parse_minute hour (getnum s True)"

fun parse_hour :: "(nat \<times> string) option \<Rightarrow> (nat \<times> nat) option" where
  "parse_hour None = None"
| "parse_hour (Some (hour, rest)) =
     (if 24 \<le> hour then None else parse_minute_sep hour (skip_char (CHR '':'') rest))"

definition Parse_clock :: "string \<Rightarrow> (nat \<times> nat) option" where
  "Parse_clock s = parse_hour (getnum s False)"

section \<open>calculatePoints\<close>

text \<open>
  Every block of \<open>calculatePoints\<close> takes the running \<open>totalPoints\<close> and returns it
  updated. The first block counts the code points of the retailer name that are
  letters or digits.
\<close>

definition retailer_rule :: "platform \<Rightarrow> string \<Rightarrow> go_int \<Rightarrow> go_int" where
  "retailer_rule pf retailer totalPoints =
     fold (\<lambda>char tp. if IsLetter pf char \<or> IsDigit pf char then tp + 1 else tp)
       (runes retailer) totalPoints"

text \<open>50 points for a total equal to its truncation, then 25 for a multiple of 0.25.\<close>

definition round_dollar_rule :: "f64 \<Rightarrow> go_int \<Rightarrow> go_int" where
  "round_dollar_rule amount totalPoints =
     (if f64_eq amount (math_Trunc amount) then totalPoints + 50 else totalPoints)"

definition quarter_rule :: "f64 \<Rightarrow> go_int \<Rightarrow> go_int" where
  "quarter_rule amount totalPoints =
     (if f64_eq (math_Mod amount (Finite (1 / 4))) (Finite 0) then totalPoints + 25
      else totalPoints)"

fun total_parsed :: "f64 option \<Rightarrow> go_int \<Rightarrow> go_int" where
  "total_parsed None totalPoints = totalPoints"
| "total_parsed (Some amount) totalPoints =
     quarter_rule amount (round_dollar_rule amount totalPoints)"

definition total_rules :: "string \<Rightarrow> go_int \<Rightarrow> go_int" where
  "total_rules totalText totalPoints = total_parsed (ParseFloat totalText) totalPoints"

text \<open>5 points for every two items.\<close>

definition pair_rule :: "Item list \<Rightarrow> go_int \<Rightarrow> go_int" where
  "pair_rule items totalPoints = totalPoints + word_of_nat (length items div 2) * 5"

text \<open>
  The item loop. The constant \<open>0.2\<close> is the \<open>float64\<close> nearest to one fifth;
  \<open>points := int(math.Ceil(price * 0.2))\<close>.
\<close>

fun price_points :: "platform \<Rightarrow> f64 option \<Rightarrow> go_int \<Rightarrow> go_int" where
  "price_points pf None totalPoints = totalPoints"
| "price_points pf (Some price) totalPoints =
     totalPoints + float_to_int (float_conv pf) (math_Ceil (f64_mul price (round_f64 (1 / 5))))"

definition item_step :: "platform \<Rightarrow> Item \<Rightarrow> go_int \<Rightarrow> go_int" where
  "item_step pf item totalPoints =
     (if length (TrimSpace (ShortDescription item)) mod 3 = 0
      then price_points pf (ParseFloat (Price item)) totalPoints
      else totalPoints)"

definition item_loop :: "platform \<Rightarrow> Item list \<Rightarrow> go_int \<Rightarrow> go_int" where
  "item_loop pf items totalPoints = fold (item_step pf) items totalPoints"

text \<open>6 points for an odd day of the month.\<close>

fun day_parsed :: "(nat \<times> nat \<times> nat) option \<Rightarrow> go_int \<Rightarrow> go_int" where
  "day_parsed None totalPoints = totalPoints"
| "day_parsed (Some (year, month, day)) totalPoints =
     (if day mod 2 = 1 then totalPoints + 6 else totalPoints)"

definition day_rule :: "string \<Rightarrow> go_int \<Rightarrow> go_int" where
  "day_rule purchaseDate totalPoints = day_parsed (Parse_date purchaseDate) totalPoints"

text \<open>10 points for a purchase from 14:00 up to, not including, 16:00.\<close>

fun clock_parsed :: "(nat \<times> nat) option \<Rightarrow> go_int \<Rightarrow> go_int" where
  "clock_parsed None totalPoints = totalPoints"
| "clock_parsed (Some (hour, minute)) totalPoints =
     (if 14 * 60 \<le> hour * 60 + minute \<and> hour * 60 + minute < 16 * 60 then totalPoints + 10
      else totalPoints)"

definition time_rule :: "string \<Rightarrow> go_int \<Rightarrow> go_int" where
  "time_rule purchaseTime totalPoints = clock_parsed (Parse_clock purchaseTime) totalPoints"

definition calculatePoints :: "platform \<Rightarrow> Receipt \<Rightarrow> go_int" where
  "calculatePoints pf receipt =
     time_rule (PurchaseTime receipt)
       (day_rule (PurchaseDate receipt)
          (item_loop pf (Items receipt)
             (pair_rule (Items receipt)
                (total_rules (Total receipt)
                   (retailer_rule pf (Retailer receipt) 0)))))"

section \<open>Decoding the request body\<close>

text \<open>
  \<open>json.NewDecoder(r.Body).Decode(&receipt)\<close> reads the first JSON value of the body.
  The body is modelled after lexing: \<open>Malformed\<close> is a body that does not start with a
  well-formed JSON value (or cannot be read), \<open>Document v\<close> one whose first value is
  \<open>v\<close>. A JSON string is kept as the Go string the decoder makes of it, an object as
  the list of its members in the order written.
\<close>

datatype json =
  JNull | JBool bool | JNumber string | JString string | JArray "json list"
  | JObject "(string \<times> json) list"

datatype body = Malformed | Document json

text \<open>
  A member of an object is stored in the struct field whose JSON name equals the key,
  or equals it under Unicode simple case folding. The names here are ASCII, so only
  code points that fold to ASCII matter: the letters, \<open>U+017F\<close> (long s) and
  \<open>U+212A\<close> (Kelvin sign).
\<close>

definition foldRune :: "nat \<Rightarrow> nat" where
  "foldRune r =
     (if 0x61 \<le> r \<and> r \<le> 0x7A then r - 32
      else if r = 0x17F then 0x53
      else if r = 0x212A then 0x4B
      else r)"

definition foldName :: "string \<Rightarrow> nat list" where
  "foldName s = map foldRune (runes s)"

definition field_key :: "string \<Rightarrow> string \<Rightarrow> bool" where
  "field_key name key = (foldName key = foldName name)"

text \<open>
  A JSON string is stored in a string field, \<open>null\<close> leaves the field as it is, and
  every other value is an \<open>UnmarshalTypeError\<close>. The decoder goes on after such an
  error and returns it at the end; the handler only looks at the error, so the model
  stops at the first one (\<open>None\<close>).
\<close>

fun decode_string :: "json \<Rightarrow> string \<Rightarrow> string option" where
  "decode_string (JString s) cur = Some s"
| "decode_string JNull cur = Some cur"
| "decode_string _ cur = None"

definition decode_item_member :: "string \<times> json \<Rightarrow> Item \<Rightarrow> Item option" where
  "decode_item_member kv item =
     (if field_key ''shortDescription'' (fst kv) then
        map_option (\<lambda>s. item\<lparr>ShortDescription := s\<rparr>)
          (decode_string (snd kv) (ShortDescription item))
      else if field_key ''price'' (fst kv) then
        map_option (\<lambda>s. item\<lparr>Price := s\<rparr>) (decode_string (snd kv) (Price item))
      else Some item)"

text \<open>The members of an object are decoded in the order written, up to the first error.\<close>

definition decode_members ::
  "('s \<times> json \<Rightarrow> 'a \<Rightarrow> 'a option) \<Rightarrow> ('s \<times> json) list \<Rightarrow> 'a \<Rightarrow> 'a option" where
  "decode_members f kvs x = fold (\<lambda>kv acc. Option.bind acc (f kv)) kvs (Some x)"

fun decode_item :: "json \<Rightarrow> Item \<Rightarrow> Item option" where
  "decode_item (JObject kvs) item = decode_members decode_item_member kvs item"
| "decode_item JNull item = Some item"
| "decode_item _ item = None"

text \<open>
  An array is decoded into the slice element by element, each element into what the
  backing array of the slice holds at that index (the zero \<open>Item\<close> beyond it), and the
  slice is cut to the length of the array. \<open>buf\<close> is the backing array; it matters only
  when a document names the items more than once.
\<close>

definition zero_Item :: Item where
  "zero_Item = \<lparr>ShortDescription = [], Price = []\<rparr>"

fun slot :: "Item list \<Rightarrow> Item" where
  "slot [] = zero_Item"
| "slot (b # buf) = b"

fun cons_decoded :: "Item option \<Rightarrow> Item list option \<Rightarrow> Item list option" where
  "cons_decoded (Some item) (Some items) = Some (item # items)"
| "cons_decoded _ _ = None"

fun decode_elements :: "json list \<Rightarrow> Item list \<Rightarrow> Item list option" where
  "decode_elements [] buf = Some []"
| "decode_elements (v # vs) buf =
     cons_decoded (decode_item v (slot buf)) (decode_elements vs (tl buf))"

fun decode_items :: "json \<Rightarrow> Item list \<Rightarrow> (Item list \<times> Item list) option" where
  "decode_items (JArray vs) buf =
     (if vs = [] then Some ([], [])
      else map_option (\<lambda>items. (items, items @ drop (length items) buf))
             (decode_elements vs buf))"
| "decode_items JNull buf = Some ([], [])"
| "decode_items _ buf = None"

definition decode_receipt_member ::
  "string \<times> json \<Rightarrow> Receipt \<times> Item list \<Rightarrow> (Receipt \<times> Item list) option" where
  "decode_receipt_member kv st =
     (let receipt = fst st; buf = snd st in
      if field_key ''retailer'' (fst kv) then
        map_option (\<lambda>s. (receipt\<lparr>Retailer := s\<rparr>, buf))
          (decode_string (snd kv) (Retailer receipt))
      else if field_key ''purchaseDate'' (fst kv) then
        map_option (\<lambda>s. (receipt\<lparr>PurchaseDate := s\<rparr>, buf))
          (decode_string (snd kv) (PurchaseDate receipt))
      else if field_key ''purchaseTime'' (fst kv) then
        map_option (\<lambda>s. (receipt\<lparr>PurchaseTime := s\<rparr>, buf))
          (decode_string (snd kv) (PurchaseTime receipt))
      else if field_key ''total'' (fst kv) then
        map_option (\<lambda>s. (receipt\<lparr>Total := s\<rparr>, buf))
          (decode_string (snd kv) (Total receipt))
      else if field_key ''items'' (fst kv) then
        map_option (\<lambda>r. (receipt\<lparr>Items := fst r\<rparr>, snd r)) (decode_items (snd kv) buf)
      else Some st)"

definition zero_Receipt :: Receipt where
  "zero_Receipt =
     \<lparr>Retailer = [], PurchaseDate = [], PurchaseTime = [], Total = [], Items = []\<rparr>"

text \<open>
  \<open>Decode\<close> into \<open>var receipt Receipt\<close>: an object fills the fields it names, \<open>null\<close>
  leaves the zero receipt, any other value is an error.
\<close>

fun Decode :: "body \<Rightarrow> Receipt option" where
  "Decode Malformed = None"
| "Decode (Document (JObject kvs)) =
     map_option fst (decode_members decode_receipt_member kvs (zero_Receipt, []))"
| "Decode (Document JNull) = Some zero_Receipt"
| "Decode (Document _) = None"

section \<open>The handlers and the store\<close>

text \<open>
  \<open>receiptStore\<close> is a Go map from identifier to \<open>ProcessedReceipt\<close>. A handler takes
  the store and returns its response and the store after the call. \<open>uuid.New()\<close>
  returns a fresh random identifier or panics when the random source fails; its
  outcome is the argument \<open>uuid\<close> (\<open>None\<close> for the panic, which ends the handler
  before the store is written).
\<close>

type_synonym store = "string \<rightharpoonup> ProcessedReceipt"

datatype response =
  BadRequest | IdResponse string | NotFound | PointsResponse go_int | Panicked

fun store_receipt :: "go_int \<Rightarrow> string option \<Rightarrow> store \<Rightarrow> response \<times> store" where
  "store_receipt points None st = (Panicked, st)"
| "store_receipt points (Some i) st = (IdResponse i, st(i \<mapsto> \<lparr>ID = i, Points = points\<rparr>))"

fun process_decoded ::
  "platform \<Rightarrow> string option \<Rightarrow> Receipt option \<Rightarrow> store \<Rightarrow> response \<times> store" where
  "process_decoded pf uuid None st = (BadRequest, st)"
| "process_decoded pf uuid (Some receipt) st = store_receipt (calculatePoints pf receipt) uuid st"

definition processReceiptHandler ::
  "platform \<Rightarrow> string option \<Rightarrow> body \<Rightarrow> store \<Rightarrow> response \<times> store" where
  "processReceiptHandler pf uuid b st = process_decoded pf uuid (Decode b) st"

definition getPointsHandler :: "string \<Rightarrow> store \<Rightarrow> response \<times> store" where
  "getPointsHandler i st =
     (case st i of
        None \<Rightarrow> (NotFound, st)
      | Some receipt \<Rightarrow> (PointsResponse (Points receipt), st))"

text \<open>
  The number of code points of a string (\<open>utf8.RuneCountInString\<close>), to compare with
  its length in bytes.
\<close>

definition RuneCountInString :: "string \<Rightarrow> nat" where
  "RuneCountInString s = length (runes s)"

text \<open>A platform: amd64, where an out-of-range conversion gives the least \<open>int\<close>.\<close>

definition amd64 :: platform where
  "amd64 = \<lparr>float_conv = (\<lambda>f. - (2 ^ 63)), letter_table = (\<lambda>r. False),
            digit_table = (\<lambda>r. False)\<rparr>"

text \<open>The JSON document of the end-to-end scenario.\<close>

definition fixture_document :: body where
  "fixture_document =
     Document (JObject
       [(''retailer'', JString ''Target''),
        (''purchaseDate'', JString ''2022-01-01''),
        (''purchaseTime'', JString ''13:01''),
        (''items'', JArray
           [JObject [(''shortDescription'', JString ''Mountain Dew 12PK''),
                     (''price'', JString ''6.49'')],
            JObject [(''shortDescription'', JString ''Emils Cheese Pizza''),
                     (''price'', JString ''12.25'')]]),
        (''total'', JString ''35.35'')])"

text \<open>Every record of the store carries the identifier it is stored under.\<close>

definition store_consistent :: "store \<Rightarrow> bool" where
  "store_consistent st = (\<forall>k v. st k = Some v \<longrightarrow> ID v = k)"

text \<open>The receipt of the end-to-end scenario.\<close>

definition fixture_receipt :: Receipt where
  "fixture_receipt =
     \<lparr>Retailer = ''Target'', PurchaseDate = ''2022-01-01'', PurchaseTime = ''13:01'',
      Total = ''35.35'',
      Items = [\<lparr>ShortDescription = ''Mountain Dew 12PK'', Price = ''6.49''\<rparr>,
               \<lparr>ShortDescription = ''Emils Cheese Pizza'', Price = ''12.25''\<rparr>]\<rparr>"

section \<open>Evaluation\<close>

text \<open>Floor and ceiling of a rational written as a fraction of numerals.\<close>

lemma floor_rat_numeral [simp]:
  "\<lfloor>numeral a / numeral b :: rat\<rfloor> = numeral a div numeral b"
  by (metis floor_divide_of_int_eq of_int_numeral)

lemma floor_rat_neg_numeral [simp]:
  "\<lfloor>- (numeral a / numeral b) :: rat\<rfloor> = - numeral a div numeral b"
  by (metis floor_divide_of_int_eq of_int_numeral of_int_minus minus_divide_left)

lemma ceiling_rat_numeral [simp]:
  "\<lceil>numeral a / numeral b :: rat\<rceil> = - (- numeral a div numeral b)"
  unfolding ceiling_def by (simp only: floor_rat_neg_numeral)

lemma ceiling_rat_neg_numeral [simp]:
  "\<lceil>- (numeral a / numeral b) :: rat\<rceil> = - (numeral a div numeral b)"
  unfolding ceiling_def by simp

lemmas float_eval = round_f64_def floor_log2_def round_half_even_def bit_length.simps
  Let_def power_int_def power_divide trunc_rat_def f64_eq_def

lemmas parse_eval = ParseFloat_def special_def special_inf_def readFloat_def read_exponent_def
  underscoreOK_def is_dec_digit_def is_hex_letter_def digit_val_def hex_letter_val_def
  lower_def ascii_lower_def

lemmas time_eval = isDigit_def getnum_def isLeap_def daysIn_def Parse_date_def Parse_clock_def
  is_dec_digit_def digit_val_def

lemmas calc_eval = retailer_rule_def IsLetter_def IsDigit_def round_dollar_rule_def
  quarter_rule_def total_rules_def pair_rule_def item_step_def item_loop_def day_rule_def
  time_rule_def calculatePoints_def

lemmas json_eval = foldRune_def foldName_def field_key_def decode_item_member_def
  decode_receipt_member_def zero_Item_def zero_Receipt_def decode_members_def

lemmas utf8_eval = RuneCountInString_def DecodeRuneInString_def DecodeLastRuneInString_def byte_def accept_lo_def
  accept_hi_def RuneStart_def RuneError_def IsSpace_def TrimSpace_def TrimLeftSpace.simps
  TrimRightSpace.simps runes.simps

section \<open>Every rule adds to the running total\<close>

lemma retailer_fold_add:
  "fold (\<lambda>char tp. if P char then tp + 1 else tp) xs (tp :: go_int)
     = tp + fold (\<lambda>char tp. if P char then tp + 1 else tp) xs 0"
proof (induction xs arbitrary: tp)
  case Nil
  then show ?case by simp
next
  case (Cons x xs)
  show ?case
    using Cons.IH [of "tp + 1"] Cons.IH [of tp] Cons.IH [of 1] Cons.IH [of 0]
    by (simp add: add.assoc)
qed

lemma retailer_rule_add: "retailer_rule pf s tp = tp + retailer_rule pf s 0"
  unfolding retailer_rule_def by (rule retailer_fold_add)

lemma total_parsed_add: "total_parsed v tp = tp + total_parsed v 0"
  by (cases v) (simp_all add: round_dollar_rule_def quarter_rule_def)

lemma total_rules_add: "total_rules t tp = tp + total_rules t 0"
  unfolding total_rules_def by (rule total_parsed_add)

lemma price_points_add: "price_points pf v tp = tp + price_points pf v 0"
  by (cases v) simp_all

lemma item_step_add: "item_step pf item tp = tp + item_step pf item 0"
  unfolding item_step_def using price_points_add [of pf _ tp] by simp

lemma item_loop_sum:
  "item_loop pf items tp = tp + sum_list (map (\<lambda>item. item_step pf item 0) items)"
  unfolding item_loop_def
proof (induction items arbitrary: tp)
  case Nil
  then show ?case by simp
next
  case (Cons item items)
  show ?case
    using Cons.IH [of "item_step pf item tp"] item_step_add [of pf item tp]
    by (simp add: add.assoc)
qed

lemma day_parsed_add: "day_parsed v tp = tp + day_parsed v 0"
  by (cases v) auto

lemma day_rule_add: "day_rule d tp = tp + day_rule d 0"
  unfolding day_rule_def by (rule day_parsed_add)

lemma clock_parsed_add: "clock_parsed v tp = tp + clock_parsed v 0"
  by (cases v) auto

lemma time_rule_add: "time_rule t tp = tp + time_rule t 0"
  unfolding time_rule_def by (rule clock_parsed_add)

lemma calculatePoints_sum:
  "calculatePoints pf r =
     retailer_rule pf (Retailer r) 0 + total_rules (Total r) 0
     + word_of_nat (length (Items r) div 2) * 5
     + sum_list (map (\<lambda>item. item_step pf item 0) (Items r))
     + day_rule (PurchaseDate r) 0 + time_rule (PurchaseTime r) 0"
  unfolding calculatePoints_def
  by (subst time_rule_add, subst day_rule_add, subst item_loop_sum, subst total_rules_add)
     (simp add: pair_rule_def)

lemma ParseFloat_empty: "ParseFloat [] = None"
  by (simp add: parse_eval)

lemma Parse_clock_empty: "Parse_clock [] = None"
  by (simp add: time_eval)

lemma time_rule_empty: "time_rule [] tp = tp"
  by (simp add: time_rule_def Parse_clock_empty)

lemma total_rules_empty: "total_rules [] tp = tp"
  by (simp add: total_rules_def ParseFloat_empty)

lemma calculatePoints_time:
  "calculatePoints pf (r\<lparr>PurchaseTime := t\<rparr>)
     = calculatePoints pf (r\<lparr>PurchaseTime := []\<rparr>) + time_rule t 0"
  by (simp add: calculatePoints_sum time_rule_empty)

lemma calculatePoints_total:
  "calculatePoints pf (r\<lparr>Total := t\<rparr>)
     = calculatePoints pf (r\<lparr>Total := []\<rparr>) + total_rules t 0"
  by (simp add: calculatePoints_sum total_rules_empty)

lemma time_rule_window:
  "time_rule t 0 =
     (if \<exists>h m. Parse_clock t = Some (h, m) \<and> 840 \<le> h * 60 + m \<and> h * 60 + m < 960
      then 10 else 0)"
  unfolding time_rule_def by (cases "Parse_clock t") auto

text \<open>Evaluations of the clock and total rules.\<close>

lemma Parse_clock_1400: "Parse_clock ''14:00'' = Some (14, 0)"
  by (simp add: time_eval)

lemma Parse_clock_1433: "Parse_clock ''14:33'' = Some (14, 33)"
  by (simp add: time_eval)

lemma Parse_clock_1600: "Parse_clock ''16:00'' = Some (16, 0)"
  by (simp add: time_eval)

lemma Parse_clock_1359: "Parse_clock ''13:59'' = Some (13, 59)"
  by (simp add: time_eval)

lemma Parse_clock_2pm: "Parse_clock ''2:30pm'' = None"
  by (simp add: time_eval)

lemma total_rules_3500: "total_rules ''35.00'' 0 = 75"
  by (simp add: calc_eval parse_eval float_eval cong: let_weak_cong)

lemma total_rules_900: "total_rules ''9.00'' 0 = 75"
  by (simp add: calc_eval parse_eval float_eval cong: let_weak_cong)

lemma total_rules_299: "total_rules ''2.99'' 0 = 0"
  by (simp add: calc_eval parse_eval float_eval cong: let_weak_cong)

lemma ParseFloat_abc: "ParseFloat ''abc'' = None"
  by (simp add: parse_eval)

section \<open>The end-to-end scenario\<close>

lemma Parse_date_fixture: "Parse_date ''2022-01-01'' = Some (2022, 1, 1)"
  by (simp add: time_eval)

lemma Parse_clock_fixture: "Parse_clock ''13:01'' = Some (13, 1)"
  by (simp add: time_eval)

lemma retailer_rule_Target: "retailer_rule pf ''Target'' 0 = 6"
  by (simp add: calc_eval utf8_eval)

lemma total_rules_3535: "total_rules ''35.35'' tp = tp"
  by (simp add: calc_eval parse_eval float_eval cong: let_weak_cong)

lemma item_step_Mountain_Dew:
  "item_step pf \<lparr>ShortDescription = ''Mountain Dew 12PK'', Price = ''6.49''\<rparr> tp = tp"
  by (simp add: calc_eval utf8_eval)

lemma item_step_Emils:
  "item_step pf \<lparr>ShortDescription = ''Emils Cheese Pizza'', Price = ''12.25''\<rparr> tp = tp + 3"
  by (simp add: calc_eval utf8_eval parse_eval float_eval cong: let_weak_cong)

lemma fixture_eval: "calculatePoints pf fixture_receipt = 20"
  by (simp add: calculatePoints_def fixture_receipt_def retailer_rule_Target total_rules_3535
      item_step_Mountain_Dew item_step_Emils item_loop_def pair_rule_def day_rule_def
      time_rule_def Parse_date_fixture Parse_clock_fixture)

text \<open>
  C1, as stated, fails: for the fixture receipt (retailer Target, 2022-01-01, 13:01,
  total 35.35, the items Mountain Dew 12PK at 6.49 and Emils Cheese Pizza at 12.25)
  \<open>calculatePoints\<close> does not return 31, on any platform.
\<close>

theorem C1_fixture_is_not_31: "\<forall>pf. calculatePoints pf fixture_receipt \<noteq> 31"
  by (simp add: fixture_eval)

text \<open>
  C1, amended: for the fixture receipt \<open>calculatePoints\<close> returns exactly 20, that is
  6 for the retailer name, 5 for the pair of items, 3 for the pizza (its description
  has 18 bytes and \<open>ceil(12.25 * 0.2) = 3\<close>) and 6 for the odd day; the total 35.35,
  the 17-byte description of the first item and the time 13:01 earn nothing.
\<close>

theorem C1_fixture_points: "calculatePoints pf fixture_receipt = 20"
  by (rule fixture_eval)

section \<open>Decoding\<close>

lemma Decode_fixture: "Decode fixture_document = Some fixture_receipt"
  by (simp add: fixture_document_def fixture_receipt_def json_eval utf8_eval)


section \<open>The afternoon window\<close>

text \<open>
  C6: the afternoon rule adds exactly 10 points if and only if the purchase time parses
  and its minutes since midnight lie in the half-open interval from 840 to 960.
  Whatever the rest of the receipt is, changing the purchase time to \<open>t\<close> changes the
  result of \<open>calculatePoints\<close> by that amount over a receipt with an empty time, which
  earns nothing from the rule: 14:00 and 14:33 gain 10, 16:00 and 13:59 gain 0, and a
  time that does not parse gains 0.
\<close>

theorem C6_afternoon_window:
  "calculatePoints pf (r\<lparr>PurchaseTime := t\<rparr>)
     = calculatePoints pf (r\<lparr>PurchaseTime := []\<rparr>)
       + (if \<exists>h m. Parse_clock t = Some (h, m) \<and> 840 \<le> h * 60 + m \<and> h * 60 + m < 960
          then 10 else 0)
   \<and> calculatePoints pf (r\<lparr>PurchaseTime := ''14:00''\<rparr>)
       = calculatePoints pf (r\<lparr>PurchaseTime := []\<rparr>) + 10
   \<and> calculatePoints pf (r\<lparr>PurchaseTime := ''14:33''\<rparr>)
       = calculatePoints pf (r\<lparr>PurchaseTime := []\<rparr>) + 10
   \<and> calculatePoints pf (r\<lparr>PurchaseTime := ''16:00''\<rparr>)
       = calculatePoints pf (r\<lparr>PurchaseTime := []\<rparr>)
   \<and> calculatePoints pf (r\<lparr>PurchaseTime := ''13:59''\<rparr>)
       = calculatePoints pf (r\<lparr>PurchaseTime := []\<rparr>)
   \<and> (Parse_clock t = None \<longrightarrow>
        calculatePoints pf (r\<lparr>PurchaseTime := t\<rparr>)
          = calculatePoints pf (r\<lparr>PurchaseTime := []\<rparr>))"
proof -
  have general: "calculatePoints pf (r\<lparr>PurchaseTime := s\<rparr>)
      = calculatePoints pf (r\<lparr>PurchaseTime := []\<rparr>)
        + (if \<exists>h m. Parse_clock s = Some (h, m) \<and> 840 \<le> h * 60 + m \<and> h * 60 + m < 960
           then 10 else 0)" for s
    using calculatePoints_time [where pf = pf and r = r and t = s] by (simp only: time_rule_window)
  show ?thesis
    using general [of t] general [of "''14:00''"] general [of "''14:33''"]
      general [of "''16:00''"] general [of "''13:59''"]
    by (simp add: Parse_clock_1400 Parse_clock_1433 Parse_clock_1600 Parse_clock_1359)
qed

text \<open>C6 at a time that does not parse, \<open>2:30pm\<close>, on the fixture receipt.\<close>

theorem C6_afternoon_window_witness:
  "Parse_clock ''2:30pm'' = None
   \<and> calculatePoints amd64 (fixture_receipt\<lparr>PurchaseTime := ''2:30pm''\<rparr>)
       = calculatePoints amd64 (fixture_receipt\<lparr>PurchaseTime := []\<rparr>)"
  using C6_afternoon_window [where pf = amd64 and r = fixture_receipt and t = "''2:30pm''"]
  by (simp add: Parse_clock_2pm)

section \<open>The round-dollar and quarter rules\<close>

lemma total_parsed_independent:
  "total_parsed (Some amount) 0 =
     (if f64_eq amount (math_Trunc amount) then 50 else 0)
      + (if f64_eq (math_Mod amount (Finite (1 / 4))) (Finite 0) then 25 else 0)"
  by (simp add: round_dollar_rule_def quarter_rule_def)

text \<open>
  C5: the round-dollar and the quarter-multiple rule are decided independently on the
  parsed total, and both can apply: over a receipt whose total is empty (which earns
  nothing from them), the total 35.00 gains exactly 75, 9.00 gains exactly 75 and 2.99
  gains 0; a total that does not parse gains 0 and the other rules are computed as
  before.
\<close>

theorem C5_round_dollar_and_quarter:
  "calculatePoints pf (r\<lparr>Total := ''35.00''\<rparr>) = calculatePoints pf (r\<lparr>Total := []\<rparr>) + 75
   \<and> calculatePoints pf (r\<lparr>Total := ''9.00''\<rparr>) = calculatePoints pf (r\<lparr>Total := []\<rparr>) + 75
   \<and> calculatePoints pf (r\<lparr>Total := ''2.99''\<rparr>) = calculatePoints pf (r\<lparr>Total := []\<rparr>)
   \<and> (ParseFloat t = None \<longrightarrow>
        calculatePoints pf (r\<lparr>Total := t\<rparr>) = calculatePoints pf (r\<lparr>Total := []\<rparr>))
   \<and> (ParseFloat t = Some amount \<longrightarrow>
        calculatePoints pf (r\<lparr>Total := t\<rparr>)
          = calculatePoints pf (r\<lparr>Total := []\<rparr>)
            + ((if f64_eq amount (math_Trunc amount) then 50 else 0)
               + (if f64_eq (math_Mod amount (Finite (1 / 4))) (Finite 0) then 25 else 0)))"
proof -
  have none: "total_rules t 0 = 0" if "ParseFloat t = None"
    using that by (simp add: total_rules_def)
  have some: "total_rules t 0 =
      (if f64_eq amount (math_Trunc amount) then 50 else 0)
      + (if f64_eq (math_Mod amount (Finite (1 / 4))) (Finite 0) then 25 else 0)"
    if "ParseFloat t = Some amount"
    using that total_parsed_independent [of amount] by (simp only: total_rules_def)
  show ?thesis
    using calculatePoints_total [where pf = pf and r = r and t = "''35.00''"]
      calculatePoints_total [where pf = pf and r = r and t = "''9.00''"]
      calculatePoints_total [where pf = pf and r = r and t = "''2.99''"]
      calculatePoints_total [where pf = pf and r = r and t = t] none some
    by (simp only: total_rules_3500 total_rules_900 total_rules_299) simp
qed

text \<open>C5 at a total that does not parse, \<open>abc\<close>, on the fixture receipt.\<close>

theorem C5_round_dollar_and_quarter_witness:
  "ParseFloat ''abc'' = None
   \<and> calculatePoints amd64 (fixture_receipt\<lparr>Total := ''abc''\<rparr>)
       = calculatePoints amd64 (fixture_receipt\<lparr>Total := []\<rparr>)"
  using C5_round_dollar_and_quarter [where pf = amd64 and r = fixture_receipt and t = "''abc''"]
  by (simp add: ParseFloat_abc)

section \<open>The store\<close>

lemma getPointsHandler_store: "snd (getPointsHandler i st) = st"
  by (cases "st i") (simp_all add: getPointsHandler_def)

lemma store_consistent_put:
  "store_consistent st \<Longrightarrow> store_consistent (st(i \<mapsto> \<lparr>ID = i, Points = p\<rparr>))"
  by (simp add: store_consistent_def)

lemma store_consistent_process:
  assumes "store_consistent st"
  shows "store_consistent (snd (processReceiptHandler pf uuid b st))"
proof (cases "Decode b")
  case None
  with assms show ?thesis by (simp add: processReceiptHandler_def)
next
  case (Some receipt)
  show ?thesis
  proof (cases uuid)
    case None
    with assms Some show ?thesis by (simp add: processReceiptHandler_def)
  next
    case (Some i)
    with assms \<open>Decode b = Some receipt\<close> show ?thesis
      by (simp add: processReceiptHandler_def store_consistent_put)
  qed
qed

lemma store_consistent_empty: "store_consistent Map.empty"
  by (simp add: store_consistent_def)

text \<open>
  C10: the retrieval handler returns the store it was given, whether the identifier
  is found or not; and the property that every record carries the identifier it is
  stored under holds of the empty store and is kept by both handlers.
\<close>

theorem C10_get_leaves_store:
  "snd (getPointsHandler i st) = st
   \<and> store_consistent Map.empty
   \<and> (store_consistent st \<longrightarrow>
        store_consistent (snd (processReceiptHandler pf uuid b st))
        \<and> store_consistent (snd (getPointsHandler i st)))"
  by (simp add: getPointsHandler_store store_consistent_empty store_consistent_process)

text \<open>C10 on the store after one submission of the fixture document.\<close>

theorem C10_get_leaves_store_witness:
  "store_consistent Map.empty
   \<and> store_consistent (snd (processReceiptHandler amd64 (Some ''id-1'') fixture_document Map.empty))
   \<and> snd (getPointsHandler ''id-1''
            (snd (processReceiptHandler amd64 (Some ''id-1'') fixture_document Map.empty)))
       = snd (processReceiptHandler amd64 (Some ''id-1'') fixture_document Map.empty)"
proof -
  have a: "store_consistent Map.empty"
    using C10_get_leaves_store [where st = Map.empty] by (rule conjunct1 [OF conjunct2])
  have b: "store_consistent
      (snd (processReceiptHandler amd64 (Some ''id-1'') fixture_document Map.empty))"
    using C10_get_leaves_store [where st = Map.empty and pf = amd64
        and uuid = "Some ''id-1''" and b = fixture_document] a
    by (simp only: simp_thms)
  have c: "snd (getPointsHandler ''id-1''
            (snd (processReceiptHandler amd64 (Some ''id-1'') fixture_document Map.empty)))
       = snd (processReceiptHandler amd64 (Some ''id-1'') fixture_document Map.empty)"
    using C10_get_leaves_store [where i = "''id-1''"
        and st = "snd (processReceiptHandler amd64 (Some ''id-1'') fixture_document Map.empty)"]
    by (rule conjunct1)
  from a b c show ?thesis by (intro conjI)
qed

text \<open>
  C3: when the body decodes to a receipt and \<open>uuid.New()\<close> returns \<open>i\<close>, the submit
  handler answers with \<open>i\<close> and stores the points of the receipt under it; and whenever
  the submit handler answers with an identifier, the retrieval of that identifier from
  the resulting store finds exactly the points \<open>calculatePoints\<close> gives the decoded
  receipt.
\<close>

theorem C3_round_trip:
  "(Decode b = Some receipt \<longrightarrow>
      processReceiptHandler pf (Some i) b st
        = (IdResponse i, st(i \<mapsto> \<lparr>ID = i, Points = calculatePoints pf receipt\<rparr>)))
   \<and> (processReceiptHandler pf uuid b st = (IdResponse i, st') \<longrightarrow>
        (\<exists>receipt. Decode b = Some receipt
           \<and> getPointsHandler i st' = (PointsResponse (calculatePoints pf receipt), st')))"
proof (intro conjI impI)
  assume "Decode b = Some receipt"
  then show "processReceiptHandler pf (Some i) b st
        = (IdResponse i, st(i \<mapsto> \<lparr>ID = i, Points = calculatePoints pf receipt\<rparr>))"
    by (simp add: processReceiptHandler_def)
next
  assume accepted: "processReceiptHandler pf uuid b st = (IdResponse i, st')"
  show "\<exists>receipt. Decode b = Some receipt
           \<and> getPointsHandler i st' = (PointsResponse (calculatePoints pf receipt), st')"
  proof (cases "Decode b")
    case None
    with accepted show ?thesis by (simp add: processReceiptHandler_def)
  next
    case (Some receipt)
    with accepted show ?thesis
      by (cases uuid) (auto simp: processReceiptHandler_def getPointsHandler_def)
  qed
qed

text \<open>C3 on the fixture document: it is stored with 20 points and retrieved with 20.\<close>

theorem C3_round_trip_witness:
  "Decode fixture_document = Some fixture_receipt
   \<and> processReceiptHandler amd64 (Some ''id-1'') fixture_document Map.empty
       = (IdResponse ''id-1'', [''id-1'' \<mapsto> \<lparr>ID = ''id-1'', Points = 20\<rparr>])
   \<and> getPointsHandler ''id-1'' [''id-1'' \<mapsto> \<lparr>ID = ''id-1'', Points = 20\<rparr>]
       = (PointsResponse 20, [''id-1'' \<mapsto> \<lparr>ID = ''id-1'', Points = 20\<rparr>])"
  using C3_round_trip [where b = fixture_document and receipt = fixture_receipt and pf = amd64
      and i = "''id-1''" and st = Map.empty and uuid = "Some ''id-1''"
      and st' = "[''id-1'' \<mapsto> \<lparr>ID = ''id-1'', Points = 20\<rparr>]"]
  by (simp add: Decode_fixture fixture_eval)

section \<open>The description bonus\<close>

lemma trunc_rat_of_int: "trunc_rat (of_int k) = k"
  by (simp add: trunc_rat_def)

lemma sint_word_of_int_64:
  "- (2 ^ 63) \<le> k \<Longrightarrow> k < 2 ^ 63 \<Longrightarrow> sint (word_of_int k :: go_int) = k"
  by (simp add: sint_sbintrunc' signed_take_bit_int_eq_self)

lemma ParseFloat_1225: "ParseFloat ''12.25'' = Some (Finite (49 / 4))"
  by (simp add: parse_eval float_eval cong: let_weak_cong)

lemma f64_mul_1225:
  "f64_mul (Finite (49 / 4)) (round_f64 (1 / 5)) = Finite (2758454771764429 / 1125899906842624)"
  by (simp add: float_eval cong: let_weak_cong)

lemma ParseFloat_1e20: "ParseFloat ''100000000000000000000'' = Some (Finite 100000000000000000000)"
  by (simp add: parse_eval float_eval cong: let_weak_cong)

lemma f64_mul_1e20:
  "f64_mul (Finite 100000000000000000000) (round_f64 (1 / 5))
     = Finite 20000000000000000000"
  by (simp add: float_eval cong: let_weak_cong)

lemma TrimSpace_abc: "TrimSpace ''abc'' = ''abc''"
  by (simp add: utf8_eval)

lemma TrimSpace_blank: "TrimSpace ''  '' = []"
  by (simp add: utf8_eval)

lemma item_step_unparsed: "item_step pf \<lparr>ShortDescription = ''abc'', Price = ''abc''\<rparr> tp = tp"
  by (simp add: item_step_def TrimSpace_abc ParseFloat_abc)

text \<open>
  C7, as stated, fails for a price beyond the range of \<open>int\<close>: the description
  \<open>abc\<close> has three bytes, the price \<open>100000000000000000000\<close> parses, and
  \<open>price * 0.2\<close> is the \<open>float64\<close> 20000000000000000000, which is its own ceiling;
  but the item contributes a 64-bit \<open>int\<close>, which is below \<open>2^63\<close> on every
  platform.
\<close>

theorem C7_large_price_not_ceiling:
  "\<forall>pf. length (TrimSpace ''abc'') mod 3 = 0
     \<and> ParseFloat ''100000000000000000000'' = Some (Finite 100000000000000000000)
     \<and> f64_mul (Finite 100000000000000000000) (round_f64 (1 / 5))
         = Finite 20000000000000000000
     \<and> sint (item_step pf \<lparr>ShortDescription = ''abc'', Price = ''100000000000000000000''\<rparr> 0)
         \<noteq> \<lceil>20000000000000000000 :: rat\<rceil>"
proof
  fix pf
  have "sint (item_step pf \<lparr>ShortDescription = ''abc'', Price = ''100000000000000000000''\<rparr> 0) < 2 ^ 63"
    using sint_lt [of "item_step pf \<lparr>ShortDescription = ''abc'', Price = ''100000000000000000000''\<rparr> 0"]
    by simp
  then have "sint (item_step pf \<lparr>ShortDescription = ''abc'', Price = ''100000000000000000000''\<rparr> 0)
         \<noteq> \<lceil>20000000000000000000 :: rat\<rceil>"
    by simp
  then show "length (TrimSpace ''abc'') mod 3 = 0
     \<and> ParseFloat ''100000000000000000000'' = Some (Finite 100000000000000000000)
     \<and> f64_mul (Finite 100000000000000000000) (round_f64 (1 / 5))
         = Finite 20000000000000000000
     \<and> sint (item_step pf \<lparr>ShortDescription = ''abc'', Price = ''100000000000000000000''\<rparr> 0)
         \<noteq> \<lceil>20000000000000000000 :: rat\<rceil>"
    by (simp only: TrimSpace_abc ParseFloat_1e20 f64_mul_1e20) simp
qed

text \<open>
  C7, amended: an item whose trimmed description has a length in bytes that is a
  multiple of 3 (zero included) and whose price parses to \<open>price\<close> contributes the
  ceiling \<open>\<lceil>y\<rceil>\<close> of the \<open>float64\<close> product \<open>y\<close> of \<open>price\<close> and the \<open>float64\<close>
  nearest to 0.2, provided the product is finite and its ceiling fits a 64-bit \<open>int\<close>;
  an item whose price does not parse leaves the running total as it is; and the loop
  adds the contribution of every item, each computed on its own, to the running total.
\<close>

theorem C7_item_bonus:
  "(length (TrimSpace (ShortDescription item)) mod 3 = 0
      \<and> ParseFloat (Price item) = Some price
      \<and> f64_mul price (round_f64 (1 / 5)) = Finite y
      \<and> - (2 ^ 63) \<le> \<lceil>y\<rceil> \<and> \<lceil>y\<rceil> < 2 ^ 63
      \<longrightarrow> sint (item_step pf item 0) = \<lceil>y\<rceil>)
   \<and> (ParseFloat (Price item) = None \<longrightarrow> item_step pf item tp = tp)
   \<and> item_loop pf items tp = tp + sum_list (map (\<lambda>item. item_step pf item 0) items)"
proof (intro conjI impI)
  assume h: "length (TrimSpace (ShortDescription item)) mod 3 = 0
      \<and> ParseFloat (Price item) = Some price
      \<and> f64_mul price (round_f64 (1 / 5)) = Finite y
      \<and> - (2 ^ 63) \<le> \<lceil>y\<rceil> \<and> \<lceil>y\<rceil> < 2 ^ 63"
  then have "item_step pf item 0 = word_of_int \<lceil>y\<rceil>"
    by (simp add: item_step_def trunc_rat_of_int)
  with h show "sint (item_step pf item 0) = \<lceil>y\<rceil>"
    by (simp add: sint_word_of_int_64)
next
  assume "ParseFloat (Price item) = None"
  then show "item_step pf item tp = tp"
    by (simp add: item_step_def)
next
  show "item_loop pf items tp = tp + sum_list (map (\<lambda>item. item_step pf item 0) items)"
    by (rule item_loop_sum)
qed

text \<open>
  C7 on two items: a blank description with the price 12.25 contributes 3, an item
  whose price is \<open>abc\<close> contributes nothing, and the loop over both adds the two.
\<close>

theorem C7_item_bonus_witness:
  "sint (item_step amd64 \<lparr>ShortDescription = ''  '', Price = ''12.25''\<rparr> 0) = 3
   \<and> item_step amd64 \<lparr>ShortDescription = ''abc'', Price = ''abc''\<rparr> 7 = 7
   \<and> item_loop amd64
        [\<lparr>ShortDescription = ''abc'', Price = ''abc''\<rparr>,
         \<lparr>ShortDescription = ''  '', Price = ''12.25''\<rparr>] 0
       = 0 + (item_step amd64 \<lparr>ShortDescription = ''abc'', Price = ''abc''\<rparr> 0
              + (item_step amd64 \<lparr>ShortDescription = ''  '', Price = ''12.25''\<rparr> 0 + 0))"
proof -
  have a: "sint (item_step amd64 \<lparr>ShortDescription = ''  '', Price = ''12.25''\<rparr> 0) = 3"
    using C7_item_bonus [where item = "\<lparr>ShortDescription = ''  '', Price = ''12.25''\<rparr>"
        and price = "Finite (49 / 4)" and y = "2758454771764429 / 1125899906842624"
        and pf = amd64]
    by (simp add: TrimSpace_blank ParseFloat_1225 f64_mul_1225)
  have b: "item_step amd64 \<lparr>ShortDescription = ''abc'', Price = ''abc''\<rparr> 7 = 7"
    using C7_item_bonus [where item = "\<lparr>ShortDescription = ''abc'', Price = ''abc''\<rparr>"
        and pf = amd64 and tp = 7]
    by (simp add: ParseFloat_abc)
  have c: "item_loop amd64
        [\<lparr>ShortDescription = ''abc'', Price = ''abc''\<rparr>,
         \<lparr>ShortDescription = ''  '', Price = ''12.25''\<rparr>] 0
       = 0 + (item_step amd64 \<lparr>ShortDescription = ''abc'', Price = ''abc''\<rparr> 0
              + (item_step amd64 \<lparr>ShortDescription = ''  '', Price = ''12.25''\<rparr> 0 + 0))"
    using C7_item_bonus [where pf = amd64 and tp = 0
        and items = "[\<lparr>ShortDescription = ''abc'', Price = ''abc''\<rparr>,
         \<lparr>ShortDescription = ''  '', Price = ''12.25''\<rparr>]"]
    by simp
  from a b c show ?thesis by (intro conjI)
qed

lemma ParseFloat_5: "ParseFloat ''5'' = Some (Finite 5)"
  by (simp add: parse_eval float_eval cong: let_weak_cong)

lemma f64_mul_5: "f64_mul (Finite 5) (round_f64 (1 / 5)) = Finite 1"
  by (simp add: float_eval cong: let_weak_cong)

lemma TrimSpace_e_a: "TrimSpace [CHR 0xC3, CHR 0xA9, CHR ''a''] = [CHR 0xC3, CHR 0xA9, CHR ''a'']"
  by (simp add: utf8_eval)

lemma TrimSpace_e_ab:
  "TrimSpace [CHR 0xC3, CHR 0xA9, CHR ''a'', CHR ''b''] = [CHR 0xC3, CHR 0xA9, CHR ''a'', CHR ''b'']"
  by (simp add: utf8_eval)

lemma RuneCount_e_a: "RuneCountInString [CHR 0xC3, CHR 0xA9, CHR ''a''] = 2"
  by (simp add: utf8_eval)

lemma RuneCount_e_ab: "RuneCountInString [CHR 0xC3, CHR 0xA9, CHR ''a'', CHR ''b''] = 3"
  by (simp add: utf8_eval)

text \<open>
  C9: the description rule takes the length of the trimmed description in bytes
  (\<open>len\<close> of a Go string): the item earns the price bonus when that number of bytes
  is a multiple of 3 and nothing otherwise. The number of characters can disagree:
  the description \<open>U+00E9 a\<close> has 3 bytes and 2 characters and earns the bonus (1 point
  for the price 5), the description \<open>U+00E9 a b\<close> has 4 bytes and 3 characters and
  earns nothing.
\<close>

theorem C9_length_in_bytes:
  "(length (TrimSpace (ShortDescription item)) mod 3 \<noteq> 0 \<longrightarrow> item_step pf item tp = tp)
   \<and> (length (TrimSpace (ShortDescription item)) mod 3 = 0 \<longrightarrow>
        item_step pf item tp = price_points pf (ParseFloat (Price item)) tp)
   \<and> length (TrimSpace [CHR 0xC3, CHR 0xA9, CHR ''a'']) = 3
   \<and> RuneCountInString (TrimSpace [CHR 0xC3, CHR 0xA9, CHR ''a'']) = 2
   \<and> item_step pf \<lparr>ShortDescription = [CHR 0xC3, CHR 0xA9, CHR ''a''], Price = ''5''\<rparr> 0 = 1
   \<and> length (TrimSpace [CHR 0xC3, CHR 0xA9, CHR ''a'', CHR ''b'']) = 4
   \<and> RuneCountInString (TrimSpace [CHR 0xC3, CHR 0xA9, CHR ''a'', CHR ''b'']) = 3
   \<and> item_step pf \<lparr>ShortDescription = [CHR 0xC3, CHR 0xA9, CHR ''a'', CHR ''b''], Price = ''5''\<rparr> 0
       = 0"
  by (simp add: item_step_def TrimSpace_e_a TrimSpace_e_ab RuneCount_e_a RuneCount_e_ab
      ParseFloat_5 f64_mul_5 trunc_rat_def)

text \<open>C9 on the two descriptions, with 9 points before the item.\<close>

theorem C9_length_in_bytes_witness:
  "item_step amd64 \<lparr>ShortDescription = [CHR 0xC3, CHR 0xA9, CHR ''a'', CHR ''b''], Price = ''5''\<rparr> 9
     = 9
   \<and> item_step amd64 \<lparr>ShortDescription = [CHR 0xC3, CHR 0xA9, CHR ''a''], Price = ''5''\<rparr> 9
       = price_points amd64 (ParseFloat ''5'') 9"
  using C9_length_in_bytes [where pf = amd64 and tp = 9
      and item = "\<lparr>ShortDescription = [CHR 0xC3, CHR 0xA9, CHR ''a'', CHR ''b''], Price = ''5''\<rparr>"]
    C9_length_in_bytes [where pf = amd64 and tp = 9
      and item = "\<lparr>ShortDescription = [CHR 0xC3, CHR 0xA9, CHR ''a''], Price = ''5''\<rparr>"]
  by (simp add: TrimSpace_e_a TrimSpace_e_ab)

section \<open>Rejected and accepted documents\<close>


























section \<open>The sign of the result\<close>

lemma bit_length_le: "n < 2 ^ k \<Longrightarrow> bit_length n \<le> k"
proof (induction k arbitrary: n)
  case 0
  then show ?case by (simp add: bit_length.simps)
next
  case (Suc k)
  have "n div 2 < 2 ^ k" using Suc.prems by simp
  then have "bit_length (n div 2) \<le> k" by (rule Suc.IH)
  then show ?case by (subst bit_length.simps) simp
qed

lemma floor_log2_le:
  assumes "0 < a" and "a \<le> 2 ^ k"
  shows "floor_log2 a \<le> int k"
proof (cases "1 \<le> a")
  case True
  have "\<lfloor>a\<rfloor> \<le> 2 ^ k"
    using assms(2) by (metis floor_mono floor_numeral floor_power of_int_numeral of_int_power floor_of_int)
  then have "\<lfloor>a\<rfloor> < 2 * 2 ^ k"
    using zero_less_power [of "2::int" k] by linarith
  then have "nat \<lfloor>a\<rfloor> < 2 ^ Suc k"
    using True by (simp add: nat_less_iff)
  then have "bit_length (nat \<lfloor>a\<rfloor>) \<le> Suc k" by (rule bit_length_le)
  with True show ?thesis by (simp add: floor_log2_def)
next
  case False
  then show ?thesis by (simp add: floor_log2_def)
qed

lemma round_half_even_le: "x \<le> of_int N \<Longrightarrow> round_half_even x \<le> N"
proof -
  assume h: "x \<le> of_int N"
  have f: "\<lfloor>x\<rfloor> \<le> N" using h by (simp add: floor_le_iff) 
  show ?thesis
  proof (cases "\<lfloor>x\<rfloor> = N")
    case True
    then have "x = of_int N" using h by (metis of_int_floor_le order_antisym)
    then show ?thesis by (simp add: round_half_even_def)
  next
    case False
    with f have "\<lfloor>x\<rfloor> + 1 \<le> N" by simp
    then show ?thesis by (simp add: round_half_even_def Let_def)
  qed
qed

lemma round_half_even_nonneg: "0 \<le> x \<Longrightarrow> 0 \<le> round_half_even x"
  by (simp add: round_half_even_def Let_def)

lemma round_f64_bounded:
  assumes "0 \<le> q" and "q \<le> 2 ^ k" and "k \<le> 1023"
  shows "\<exists>v. round_f64 q = Finite v \<and> 0 \<le> v \<and> v \<le> 2 ^ k"
proof (cases "q = 0")
  case True
  then show ?thesis by (simp add: round_f64_def)
next
  case False
  with assms(1) have pos: "0 < q" by simp
  define e where "e = max (floor_log2 q - 52) (- 1074)"
  define m where "m = round_half_even (q / (2 powi e))"
  define v :: rat where "v = of_int m * (2 powi e)"
  have e_le: "e \<le> int k"
    using floor_log2_le [OF pos assms(2)] by (simp add: e_def)
  have pe: "(0::rat) < 2 powi e" by (simp add: zero_less_power_int)
  have split: "(2::rat) ^ k = of_int (2 ^ nat (int k - e)) * 2 powi e"
  proof -
    have "(2::rat) powi (int k - e + e) = 2 powi (int k - e) * 2 powi e"
      by (rule power_int_add) simp
    moreover have "(2::rat) powi (int k - e) = 2 ^ nat (int k - e)"
      using e_le by (simp add: power_int_def)
    moreover have "(2::rat) powi (int k - e + e) = 2 ^ k"
      by simp
    ultimately show ?thesis by simp
  qed
  have "q / (2 powi e) \<le> of_int (2 ^ nat (int k - e))"
    using assms(2) pe by (simp add: split pos_divide_le_eq)
  then have m_le: "m \<le> 2 ^ nat (int k - e)"
    unfolding m_def by (rule round_half_even_le)
  have m_ge: "0 \<le> m"
    unfolding m_def using pos pe by (intro round_half_even_nonneg) simp
  have v_le: "v \<le> 2 ^ k"
    unfolding v_def split using m_le pe by (simp add: mult_right_mono)
  have v_ge: "0 \<le> v"
    unfolding v_def using m_ge pe by simp
  have "(2::rat) ^ k < 2 ^ 1024"
    by (rule power_strict_increasing) (use assms(3) in simp_all)
  with v_le have "\<not> 2 ^ 1024 \<le> v" by simp
  then have "round_f64 q = Finite v"
    using pos False unfolding round_f64_def Let_def v_def m_def e_def by simp
  with v_le v_ge show ?thesis by simp
qed

lemma round_f64_fifth: "round_f64 (1 / 5) = Finite (3602879701896397 / 18014398509481984)"
  by (simp add: float_eval cong: let_weak_cong)

lemma word_of_int_nat: "0 \<le> k \<Longrightarrow> (word_of_int k :: go_int) = word_of_nat (nat k)"
  by (simp add: of_nat_nat)

lemma float_to_int_of_int:
  "- (2 ^ 63) \<le> k \<Longrightarrow> k < 2 ^ 63 \<Longrightarrow> float_to_int oor (Finite (of_int k)) = word_of_int k"
  by (simp add: trunc_rat_of_int)

lemma fifth_scaled:
  assumes "0 \<le> (q::rat)" and "q \<le> 2 ^ 30"
  shows "0 \<le> q * (3602879701896397 / 18014398509481984)"
    and "q * (3602879701896397 / 18014398509481984) \<le> 2 ^ 28"
proof -
  show "0 \<le> q * (3602879701896397 / 18014398509481984)"
    using assms(1) by (rule mult_nonneg_nonneg) simp
  have "q * (3602879701896397 / 18014398509481984)
      \<le> 2 ^ 30 * (3602879701896397 / 18014398509481984)"
    using assms(2) by (rule mult_right_mono) simp
  also have "\<dots> \<le> 2 ^ 28" by simp
  finally show "q * (3602879701896397 / 18014398509481984) \<le> 2 ^ 28" .
qed

lemma price_points_bounded:
  assumes "0 \<le> q" and "q \<le> 2 ^ 30"
  shows "\<exists>n. n \<le> 2 ^ 28 \<and> price_points pf (Some (Finite q)) 0 = word_of_nat n"
proof -
  obtain v where v:
    "round_f64 (q * (3602879701896397 / 18014398509481984)) = Finite v" "0 \<le> v" "v \<le> 2 ^ 28"
    using round_f64_bounded [OF fifth_scaled(1) [OF assms] fifth_scaled(2) [OF assms]]
    by auto
  have c0: "0 \<le> \<lceil>v\<rceil>" using v(2) by (simp add: le_ceiling_iff)
  have c1: "\<lceil>v\<rceil> \<le> 2 ^ 28" using v(3) by (simp add: ceiling_le_iff)
  have c2: "- (2 ^ 63) \<le> \<lceil>v\<rceil>" using c0 by simp
  have c3: "\<lceil>v\<rceil> < 2 ^ 63" using c1 by simp
  have "f64_mul (Finite q) (round_f64 (1 / 5)) = Finite v"
    by (simp only: round_f64_fifth f64_mul.simps v(1))
  then have "price_points pf (Some (Finite q)) 0
      = 0 + float_to_int (float_conv pf) (Finite (of_int \<lceil>v\<rceil>))"
    by (simp only: price_points.simps math_Ceil.simps)
  then have "price_points pf (Some (Finite q)) 0 = word_of_int \<lceil>v\<rceil>"
    by (simp only: float_to_int_of_int [OF c2 c3] add_0)
  then have "price_points pf (Some (Finite q)) 0 = word_of_nat (nat \<lceil>v\<rceil>)"
    using c0 by (simp only: word_of_int_nat)
  moreover have "nat \<lceil>v\<rceil> \<le> 2 ^ 28"
    using c1 by (simp add: nat_le_iff)
  ultimately show ?thesis by blast
qed

lemma item_step_bounded:
  assumes "\<And>price. length (TrimSpace (ShortDescription item)) mod 3 = 0
      \<Longrightarrow> ParseFloat (Price item) = Some price
      \<Longrightarrow> \<exists>q. price = Finite q \<and> 0 \<le> q \<and> q \<le> 2 ^ 30"
  shows "\<exists>n. n \<le> 2 ^ 28 \<and> item_step pf item 0 = word_of_nat n"
proof (cases "length (TrimSpace (ShortDescription item)) mod 3 = 0")
  case False
  then have "item_step pf item 0 = word_of_nat 0" by (simp add: item_step_def)
  then show ?thesis by (intro exI [of _ 0]) simp
next
  case True
  show ?thesis
  proof (cases "ParseFloat (Price item)")
    case None
    with True have "item_step pf item 0 = word_of_nat 0" by (simp add: item_step_def)
    then show ?thesis by (intro exI [of _ 0]) simp
  next
    case (Some price)
    from assms [OF True Some] obtain q where q: "price = Finite q" "0 \<le> q" "q \<le> 2 ^ 30"
      by blast
    have "item_step pf item 0 = price_points pf (Some (Finite q)) 0"
      using True Some q(1) by (simp only: item_step_def simp_thms if_True)
    with price_points_bounded [OF q(2) q(3), of pf] show ?thesis by simp
  qed
qed

lemma sum_list_bounded:
  assumes "\<And>x. x \<in> set xs \<Longrightarrow> \<exists>n. n \<le> B \<and> f x = (word_of_nat n :: go_int)"
  shows "\<exists>n. n \<le> length xs * B \<and> sum_list (map f xs) = word_of_nat n"
  using assms
proof (induction xs)
  case Nil
  then show ?case by simp
next
  case (Cons x xs)
  obtain n where n: "n \<le> B" "f x = word_of_nat n"
    using Cons.prems [of x] by auto
  obtain k where k: "k \<le> length xs * B" "sum_list (map f xs) = word_of_nat k"
    using Cons.IH Cons.prems by auto
  have "sum_list (map f (x # xs)) = word_of_nat (n + k)"
    using n(2) k(2) by simp
  moreover have "n + k \<le> length (x # xs) * B"
    using n(1) k(1) by simp
  ultimately show ?case by blast
qed

lemma runes_length: "length (runes s) \<le> length s"
proof (induction s rule: runes.induct)
  case (1 s)
  show ?case
  proof (cases "s = []")
    case True
    then show ?thesis by (simp add: runes.simps)
  next
    case False
    have "length (runes (drop (snd (DecodeRuneInString s)) s))
        \<le> length s - snd (DecodeRuneInString s)"
      using 1 [OF False] by simp
    moreover have "0 < snd (DecodeRuneInString s)"
      using False by (rule DecodeRuneInString_size_pos)
    moreover have "0 < length s" using False by simp
    ultimately have "Suc (length (runes (drop (snd (DecodeRuneInString s)) s))) \<le> length s"
      by linarith
    then show ?thesis using False by (subst runes.simps) simp
  qed
qed

lemma retailer_fold_count:
  "fold (\<lambda>char tp. if P char then tp + 1 else tp) xs (0 :: go_int)
     = word_of_nat (length (filter P xs))"
proof (induction xs)
  case Nil
  then show ?case by simp
next
  case (Cons x xs)
  show ?case
    using Cons.IH retailer_fold_add [of P xs 1] by simp
qed

lemma retailer_rule_bounded:
  "\<exists>n. n \<le> length s \<and> retailer_rule pf s 0 = word_of_nat n"
proof -
  have "length (filter (\<lambda>char. IsLetter pf char \<or> IsDigit pf char) (runes s)) \<le> length s"
    using runes_length [of s] length_filter_le [of _ "runes s"] order_trans by blast
  then show ?thesis
    unfolding retailer_rule_def retailer_fold_count by blast
qed

lemma total_rules_bounded: "\<exists>n. n \<le> 75 \<and> total_rules t 0 = word_of_nat n"
proof (cases "ParseFloat t")
  case None
  then have "total_rules t 0 = word_of_nat 0" by (simp add: total_rules_def)
  then show ?thesis by (intro exI [of _ 0]) simp
next
  case (Some amount)
  then have "total_rules t 0 =
      word_of_nat ((if f64_eq amount (math_Trunc amount) then 50 else 0)
        + (if f64_eq (math_Mod amount (Finite (1 / 4))) (Finite 0) then 25 else 0))"
    by (simp add: total_rules_def round_dollar_rule_def quarter_rule_def)
  moreover have "(if f64_eq amount (math_Trunc amount) then 50 else 0)
        + (if f64_eq (math_Mod amount (Finite (1 / 4))) (Finite 0) then 25 else 0) \<le> (75::nat)"
    by simp
  ultimately show ?thesis by blast
qed

lemma day_rule_bounded: "\<exists>n. n \<le> 6 \<and> day_rule d 0 = word_of_nat n"
proof (cases "Parse_date d")
  case None
  then have "day_rule d 0 = word_of_nat 0" by (simp add: day_rule_def)
  then show ?thesis by (intro exI [of _ 0]) simp
next
  case (Some ymd)
  then have "day_rule d 0 = word_of_nat (if snd (snd ymd) mod 2 = 1 then 6 else 0)"
    by (cases ymd) (simp add: day_rule_def)
  moreover have "(if snd (snd ymd) mod 2 = 1 then 6 else 0) \<le> (6::nat)" by simp
  ultimately show ?thesis by blast
qed

lemma time_rule_bounded: "\<exists>n. n \<le> 10 \<and> time_rule t 0 = word_of_nat n"
proof (cases "Parse_clock t")
  case None
  then have "time_rule t 0 = word_of_nat 0" by (simp add: time_rule_def)
  then show ?thesis by (intro exI [of _ 0]) simp
next
  case (Some hm)
  then have "time_rule t 0 =
      word_of_nat (if 14 * 60 \<le> fst hm * 60 + snd hm \<and> fst hm * 60 + snd hm < 16 * 60
                   then 10 else 0)"
    by (cases hm) (simp add: time_rule_def)
  moreover have "(if 14 * 60 \<le> fst hm * 60 + snd hm \<and> fst hm * 60 + snd hm < 16 * 60
                   then 10 else 0) \<le> (10::nat)" by simp
  ultimately show ?thesis by blast
qed

lemma sint_word_of_nat_64:
  assumes "n < 2 ^ 63"
  shows "sint (word_of_nat n :: go_int) = int n"
proof -
  have "int n < 2 ^ 63" using assms by simp
  moreover have "- (2 ^ 63) \<le> int n" by simp
  ultimately have "sint (word_of_int (int n) :: go_int) = int n"
    by (intro sint_word_of_int_64)
  then show ?thesis by (simp only: of_int_of_nat_eq)
qed

lemma calculatePoints_nonneg:
  assumes "length (Retailer r) < 2 ^ 30" and "length (Items r) < 2 ^ 30"
    and "\<And>item price. item \<in> set (Items r)
      \<Longrightarrow> length (TrimSpace (ShortDescription item)) mod 3 = 0
      \<Longrightarrow> ParseFloat (Price item) = Some price
      \<Longrightarrow> \<exists>q. price = Finite q \<and> 0 \<le> q \<and> q \<le> 2 ^ 30"
  shows "0 \<le> sint (calculatePoints pf r)"
proof -
  obtain a where a: "a \<le> length (Retailer r)" "retailer_rule pf (Retailer r) 0 = word_of_nat a"
    using retailer_rule_bounded by blast
  obtain b where b: "b \<le> 75" "total_rules (Total r) 0 = word_of_nat b"
    using total_rules_bounded by blast
  have items: "\<exists>n. n \<le> 2 ^ 28 \<and> item_step pf item 0 = word_of_nat n"
    if "item \<in> set (Items r)" for item
    by (rule item_step_bounded) (rule assms(3) [OF that])
  obtain c where c: "c \<le> length (Items r) * 2 ^ 28"
      "sum_list (map (\<lambda>item. item_step pf item 0) (Items r)) = word_of_nat c"
    using sum_list_bounded [of "Items r" "2 ^ 28" "\<lambda>item. item_step pf item 0", OF items]
    by blast
  obtain d where d: "d \<le> 6" "day_rule (PurchaseDate r) 0 = word_of_nat d"
    using day_rule_bounded by blast
  obtain e where e: "e \<le> 10" "time_rule (PurchaseTime r) 0 = word_of_nat e"
    using time_rule_bounded by blast
  have eq: "calculatePoints pf r
      = word_of_nat (a + b + length (Items r) div 2 * 5 + c + d + e)"
    by (simp only: calculatePoints_sum a(2) b(2) c(2) d(2) e(2)) simp
  have "length (Items r) * 2 ^ 28 \<le> 2 ^ 30 * (2 ^ 28 :: nat)"
    using assms(2) by (intro mult_right_mono) simp_all
  then have "c \<le> 2 ^ 58" using c(1) by simp
  moreover have "length (Items r) div 2 * 5 \<le> 2 ^ 30 * 5"
    using assms(2) by simp
  ultimately have "a + b + length (Items r) div 2 * 5 + c + d + e < 2 ^ 63"
    using a(1) assms(1) b(1) d(1) e(1) by simp
  then have "sint (calculatePoints pf r)
      = int (a + b + length (Items r) div 2 * 5 + c + d + e)"
    unfolding eq by (rule sint_word_of_nat_64)
  then show ?thesis by simp
qed

lemma ParseFloat_110: "ParseFloat ''1.10'' = Some (Finite (2476979795053773 / 2251799813685248))"
  by (simp add: parse_eval float_eval cong: let_weak_cong)

lemma total_rules_110: "total_rules ''1.10'' tp = tp"
  by (simp add: total_rules_def ParseFloat_110 round_dollar_rule_def quarter_rule_def
      float_eval)

lemma ParseFloat_minus_100: "ParseFloat ''-100'' = Some (Finite (- 100))"
  by (simp add: parse_eval float_eval cong: let_weak_cong)

lemma f64_mul_minus_100: "f64_mul (Finite (- 100)) (round_f64 (1 / 5)) = Finite (- 20)"
  by (simp add: float_eval cong: let_weak_cong)

lemma Parse_date_even: "Parse_date ''2022-01-02'' = Some (2022, 1, 2)"
  by (simp add: time_eval)

lemma retailer_rule_A: "retailer_rule pf ''A'' 0 = 1"
  by (simp add: calc_eval utf8_eval)

lemma item_step_refund:
  "item_step pf \<lparr>ShortDescription = ''abc'', Price = ''-100''\<rparr> tp = tp - 20"
  by (simp add: item_step_def TrimSpace_abc ParseFloat_minus_100 f64_mul_minus_100
      trunc_rat_def)

lemma calculatePoints_refund:
  "calculatePoints pf \<lparr>Retailer = ''A'', PurchaseDate = ''2022-01-02'',
       PurchaseTime = ''13:01'', Total = ''1.10'',
       Items = [\<lparr>ShortDescription = ''abc'', Price = ''-100''\<rparr>]\<rparr> = - 19"
  by (simp add: calculatePoints_def retailer_rule_A total_rules_110 item_step_refund
      item_loop_def pair_rule_def day_rule_def time_rule_def Parse_date_even
      Parse_clock_fixture)

text \<open>
  C4, as stated, fails: in the receipt below the total, the price, the date and the
  time all parse, the retailer earns 1 point and the item, whose description has
  three bytes and whose price is -100, earns \<open>ceil(-100 * 0.2) = -20\<close>; the result
  is -19.
\<close>

theorem C4_negative_price:
  "\<forall>pf. ParseFloat ''1.10'' = Some (Finite (2476979795053773 / 2251799813685248))
     \<and> ParseFloat ''-100'' = Some (Finite (- 100))
     \<and> Parse_date ''2022-01-02'' = Some (2022, 1, 2)
     \<and> Parse_clock ''13:01'' = Some (13, 1)
     \<and> sint (calculatePoints pf \<lparr>Retailer = ''A'', PurchaseDate = ''2022-01-02'',
           PurchaseTime = ''13:01'', Total = ''1.10'',
           Items = [\<lparr>ShortDescription = ''abc'', Price = ''-100''\<rparr>]\<rparr>) = - 19"
  by (simp add: ParseFloat_110 ParseFloat_minus_100 Parse_date_even Parse_clock_fixture
      calculatePoints_refund)

text \<open>
  C4, amended: the result is not negative when every item that earns the description
  bonus (trimmed length a multiple of 3, price parsed) has a finite price from 0 to
  \<open>2^30\<close>, and the receipt has fewer than \<open>2^30\<close> items and a retailer name
  shorter than \<open>2^30\<close> bytes, so that the sum stays within \<open>int\<close>. Fields that do
  not parse earn nothing and need no hypothesis.
\<close>

theorem C4_points_nonneg:
  "length (Retailer r) < 2 ^ 30 \<and> length (Items r) < 2 ^ 30
   \<and> (\<forall>item \<in> set (Items r). \<forall>price.
         length (TrimSpace (ShortDescription item)) mod 3 = 0
         \<and> ParseFloat (Price item) = Some price
         \<longrightarrow> (\<exists>q. price = Finite q \<and> 0 \<le> q \<and> q \<le> 2 ^ 30))
   \<longrightarrow> 0 \<le> sint (calculatePoints pf r)"
proof
  assume h: "length (Retailer r) < 2 ^ 30 \<and> length (Items r) < 2 ^ 30
   \<and> (\<forall>item \<in> set (Items r). \<forall>price.
         length (TrimSpace (ShortDescription item)) mod 3 = 0
         \<and> ParseFloat (Price item) = Some price
         \<longrightarrow> (\<exists>q. price = Finite q \<and> 0 \<le> q \<and> q \<le> 2 ^ 30))"
  show "0 \<le> sint (calculatePoints pf r)"
  proof (rule calculatePoints_nonneg)
    show "length (Retailer r) < 2 ^ 30" using h by (rule conjunct1)
    show "length (Items r) < 2 ^ 30" using h by (rule conjunct1 [OF conjunct2])
    have prices: "\<forall>item \<in> set (Items r). \<forall>price.
         length (TrimSpace (ShortDescription item)) mod 3 = 0
         \<and> ParseFloat (Price item) = Some price
         \<longrightarrow> (\<exists>q. price = Finite q \<and> 0 \<le> q \<and> q \<le> 2 ^ 30)"
      using h by (rule conjunct2 [OF conjunct2])
    show "\<exists>q. price = Finite q \<and> 0 \<le> q \<and> q \<le> 2 ^ 30"
      if "item \<in> set (Items r)" "length (TrimSpace (ShortDescription item)) mod 3 = 0"
        "ParseFloat (Price item) = Some price" for item price
      by (rule mp [OF spec [OF bspec [OF prices that(1)]]]) (rule conjI [OF that(2) that(3)])
  qed
qed

lemma TrimSpace_Mountain_Dew: "TrimSpace ''Mountain Dew 12PK'' = ''Mountain Dew 12PK''"
  by (simp add: utf8_eval)

lemma TrimSpace_Emils: "TrimSpace ''Emils Cheese Pizza'' = ''Emils Cheese Pizza''"
  by (simp add: utf8_eval)

lemma fixture_prices:
  "\<forall>item \<in> set (Items fixture_receipt). \<forall>price.
     length (TrimSpace (ShortDescription item)) mod 3 = 0
     \<and> ParseFloat (Price item) = Some price
     \<longrightarrow> (\<exists>q. price = Finite q \<and> 0 \<le> q \<and> q \<le> 2 ^ 30)"
proof -
  have "\<exists>q. Finite (49 / 4) = Finite q \<and> 0 \<le> q \<and> q \<le> 2 ^ 30"
    by (rule exI [of _ "49 / 4"]) simp
  then show ?thesis
    by (simp add: fixture_receipt_def TrimSpace_Mountain_Dew TrimSpace_Emils ParseFloat_1225)
qed

lemma fixture_lengths:
  "length (Retailer fixture_receipt) < 2 ^ 30" "length (Items fixture_receipt) < 2 ^ 30"
  by (simp_all add: fixture_receipt_def)

text \<open>C4 on the receipt of the end-to-end scenario.\<close>

theorem C4_points_nonneg_witness:
  "length (Retailer fixture_receipt) < 2 ^ 30 \<and> length (Items fixture_receipt) < 2 ^ 30
   \<and> 0 \<le> sint (calculatePoints amd64 fixture_receipt)"
proof -
  have "0 \<le> sint (calculatePoints amd64 fixture_receipt)"
    by (rule mp [OF C4_points_nonneg [where r = fixture_receipt and pf = amd64]])
      (intro conjI fixture_lengths fixture_prices)
  then show ?thesis by (intro conjI fixture_lengths)
qed

end
